theory Spec2Isabelle
  imports Complex_Main
begin

section \<open>MeeusSunMoon: numbers and calendar values\<close>

text \<open>
  The library computes with JavaScript numbers, which are binary64 numbers. They are
  modelled as real numbers with exact arithmetic; \<open>Math.floor\<close> is \<open>floor\<close>. Where a
  result is cut to whole seconds, so that the rounding of the code can show in it, the
  theorems say so and allow for it. A moment object is modelled by the values of the
  getters the library reads: the calendar fields (\<open>month\<close> counts from zero, as in moment),
  the name of the display zone, which is the empty string for a moment without a zone such
  as \<open>moment.utc\<close> makes, the UTC offset in minutes, the daylight-saving flag and the text
  the object was created from.
\<close>

record datetime =
  year :: int
  month :: int
  date :: int
  hour :: int
  minute :: int
  second :: int
  millisecond :: int
  tz :: string
  utcOffset :: int
  isDST :: bool
  creationInput :: string

subsection \<open>The moment objects the library works on\<close>

text \<open>
  moment is not part of the library. Its objects are modelled as far as the library uses
  them. A moment holds a time value, the milliseconds since 1970-01-01T00:00:00Z, and
  shows it as fields of the proleptic Gregorian calendar; the record holds the fields its
  zone shows, and \<open>valueOf\<close> is the time value. \<open>MakeDay\<close> is the day number of
  ECMAScript: a month outside 0..11 carries into the year, a date outside the month
  carries into the days.
\<close>

definition isLeapYear :: "int \<Rightarrow> bool" where
  "isLeapYear y \<longleftrightarrow> (y mod 4 = 0 \<and> y mod 100 \<noteq> 0) \<or> y mod 400 = 0"

definition daysInMonth :: "int \<Rightarrow> int \<Rightarrow> int" where
  "daysInMonth y m =
     (if m = 1 then (if isLeapYear y then 29 else 28)
      else if m = 3 \<or> m = 5 \<or> m = 8 \<or> m = 10 then 30 else 31)"

definition valid_datetime :: "datetime \<Rightarrow> bool" where
  "valid_datetime dt \<longleftrightarrow>
     0 \<le> month dt \<and> month dt \<le> 11 \<and>
     1 \<le> date dt \<and> date dt \<le> daysInMonth (year dt) (month dt) \<and>
     0 \<le> hour dt \<and> hour dt < 24 \<and> 0 \<le> minute dt \<and> minute dt < 60 \<and>
     0 \<le> second dt \<and> second dt < 60 \<and> 0 \<le> millisecond dt \<and> millisecond dt < 1000"

definition MakeDay :: "int \<Rightarrow> int \<Rightarrow> int \<Rightarrow> int" where
  "MakeDay y m d =
     (let ym = y + m div 12; mn = m mod 12;
          y' = (if mn < 2 then ym - 1 else ym);
          era = y' div 400; yoe = y' mod 400;
          mp = (mn + 10) mod 12;
          doy = (153 * mp + 2) div 5;
          doe = yoe * 365 + yoe div 4 - yoe div 100 + doy
      in era * 146097 + doe - 719468 + d - 1)"

definition valueOf :: "datetime \<Rightarrow> int" where
  "valueOf dt =
     (((MakeDay (year dt) (month dt) (date dt) * 24 + hour dt) * 60 + minute dt) * 60
        + second dt) * 1000 + millisecond dt - utcOffset dt * 60000"

definition isAfter :: "datetime \<Rightarrow> datetime \<Rightarrow> bool" where
  "isAfter a b \<longleftrightarrow> valueOf a > valueOf b"

definition isBefore :: "datetime \<Rightarrow> datetime \<Rightarrow> bool" where
  "isBefore a b \<longleftrightarrow> valueOf a < valueOf b"

text \<open>The calendar date of a day number, and the fields a moment shows for a time value.\<close>

definition civilFromDays :: "int \<Rightarrow> int \<times> int \<times> int" where
  "civilFromDays z =
     (let z' = z + 719468;
          era = z' div 146097; doe = z' mod 146097;
          yoe = (doe - doe div 1460 + doe div 36524 - doe div 146096) div 365;
          doy = doe - (365 * yoe + yoe div 4 - yoe div 100);
          mp = (5 * doy + 2) div 153;
          d = doy - (153 * mp + 2) div 5 + 1;
          m = (if mp < 10 then mp + 2 else mp - 10);
          y = yoe + era * 400 + (if m < 2 then 1 else 0)
      in (y, m, d))"

definition withValue :: "datetime \<Rightarrow> int \<Rightarrow> datetime" where
  "withValue dt v =
     (let l = v + utcOffset dt * 60000;
          t = l mod 86400000
      in case civilFromDays (l div 86400000) of (y, m, d) \<Rightarrow>
         dt\<lparr>year := y, month := m, date := d,
            hour := t div 3600000, minute := t mod 3600000 div 60000,
            second := t mod 60000 div 1000, millisecond := t mod 1000\<rparr>)"

text \<open>
  Fields that name a calendar date and a time of day are kept as they are; anything else
  is carried over through the time value, as the Date object of ECMAScript does.
\<close>

definition normalize :: "datetime \<Rightarrow> datetime" where
  "normalize dt = (if valid_datetime dt then dt else withValue dt (valueOf dt))"

text \<open>
  The setters. Setting the year of 29 February and setting the month keep the date inside
  the new month; for the length of the new month moment takes the month modulo 12 and
  carries the rest into the year. The other setters carry over.
\<close>

definition set_year :: "int \<Rightarrow> datetime \<Rightarrow> datetime" where
  "set_year y dt =
     (if isLeapYear (year dt) \<and> month dt = 1 \<and> date dt = 29
      then normalize (dt\<lparr>year := y, date := daysInMonth y 1\<rparr>)
      else normalize (dt\<lparr>year := y\<rparr>))"

definition set_month :: "int \<Rightarrow> datetime \<Rightarrow> datetime" where
  "set_month m dt =
     normalize (dt\<lparr>month := m,
       date := min (date dt) (daysInMonth (year dt + m div 12) (m mod 12))\<rparr>)"

definition set_date :: "int \<Rightarrow> datetime \<Rightarrow> datetime" where
  "set_date d dt = normalize (dt\<lparr>date := d\<rparr>)"

definition set_hour :: "int \<Rightarrow> datetime \<Rightarrow> datetime" where
  "set_hour h dt = normalize (dt\<lparr>hour := h\<rparr>)"

definition set_minute :: "int \<Rightarrow> datetime \<Rightarrow> datetime" where
  "set_minute n dt = normalize (dt\<lparr>minute := n\<rparr>)"

definition set_second :: "int \<Rightarrow> datetime \<Rightarrow> datetime" where
  "set_second s dt = normalize (dt\<lparr>second := s\<rparr>)"

text \<open>
  \<open>add\<close> and \<open>subtract\<close> of a number of seconds move the time value; the Date object
  cuts the new value to whole milliseconds towards zero.
\<close>

definition truncate :: "real \<Rightarrow> int" where
  "truncate x = (if x < 0 then \<lceil>x\<rceil> else \<lfloor>x\<rfloor>)"

definition add_seconds :: "real \<Rightarrow> datetime \<Rightarrow> datetime" where
  "add_seconds s dt = withValue dt (truncate (real_of_int (valueOf dt) + s * 1000))"

definition subtract_seconds :: "real \<Rightarrow> datetime \<Rightarrow> datetime" where
  "subtract_seconds s dt = withValue dt (truncate (real_of_int (valueOf dt) - s * 1000))"

text \<open>\<open>moment.tz([y, m, d, 0, 0, 0], 'UTC')\<close> and the other moments the library creates in UTC.\<close>

definition utc :: "int \<Rightarrow> int \<Rightarrow> int \<Rightarrow> int \<Rightarrow> int \<Rightarrow> int \<Rightarrow> string \<Rightarrow> datetime" where
  "utc y m d h n s input =
     normalize \<lparr>year = y, month = m, date = d, hour = h, minute = n, second = s,
       millisecond = 0, tz = ''UTC'', utcOffset = 0, isDST = False, creationInput = input\<rparr>"

subsection \<open>Julian dates\<close>

definition gregorianCutoff :: datetime where
  "gregorianCutoff = utc 1582 9 15 12 0 0 ''1582-10-15T12:00:00Z''"

text \<open>
  \<open>datetimeToJD_B\<close> is the value of the variable \<open>B\<close> of \<open>datetimeToJD\<close>. The Julian date
  that the code returns is the binary64 number next to the value of \<open>datetimeToJD\<close> here,
  up to the rounding of its few additions and divisions; what is proved of \<open>JDToDatetime\<close>
  after \<open>datetimeToJD\<close> is proved for every number near that value.
\<close>

definition datetimeToJD_B :: "datetime \<Rightarrow> int" where
  "datetimeToJD_B datetime =
     (let Y0 = year datetime; M0 = month datetime + 1;
          Y = (if M0 < 3 then Y0 - 1 else Y0);
          A = \<lfloor>real_of_int Y / 100\<rfloor>
      in if isAfter datetime gregorianCutoff then 2 - A + \<lfloor>real_of_int A / 4\<rfloor> else 0)"

definition datetimeToJD :: "datetime \<Rightarrow> real" where
  "datetimeToJD datetime =
     (let Y0 = year datetime; M0 = month datetime + 1;
          D = real_of_int (date datetime) +
              (real_of_int (hour datetime) +
                (real_of_int (minute datetime) + real_of_int (second datetime) / 60) / 60) / 24;
          Y = (if M0 < 3 then Y0 - 1 else Y0);
          M = (if M0 < 3 then M0 + 12 else M0);
          B = datetimeToJD_B datetime
      in real_of_int \<lfloor>365.25 * real_of_int (Y + 4716)\<rfloor> +
         real_of_int \<lfloor>30.6001 * real_of_int (M + 1)\<rfloor> + D + real_of_int B - 1524.5)"

definition JDToDatetime :: "real \<Rightarrow> datetime" where
  "JDToDatetime JD0 =
     (let JD = JD0 + 0.5;
          Z = \<lfloor>JD\<rfloor>;
          F = JD - real_of_int Z;
          A = (if Z \<ge> 2299161
               then (let alpha = \<lfloor>(real_of_int Z - 1867216.25) / 36524.25\<rfloor>
                     in Z + 1 + alpha - \<lfloor>real_of_int alpha / 4\<rfloor>)
               else Z);
          B = A + 1524;
          C = \<lfloor>(real_of_int B - 122.1) / 365.25\<rfloor>;
          D = \<lfloor>365.25 * real_of_int C\<rfloor>;
          E = \<lfloor>real_of_int (B - D) / 30.6001\<rfloor>;
          fracDay = real_of_int (B - D - \<lfloor>30.6001 * real_of_int E\<rfloor>) + F;
          day = \<lfloor>fracDay\<rfloor>;
          hours = \<lfloor>(fracDay - real_of_int day) * 24\<rfloor>;
          minutes = \<lfloor>((fracDay - real_of_int day) * 24 - real_of_int hours) * 60\<rfloor>;
          seconds = \<lfloor>(((fracDay - real_of_int day) * 24 - real_of_int hours) * 60
                       - real_of_int minutes) * 60\<rfloor>;
          month0 = E - 1;
          month1 = (if E > 13 then month0 - 12 else month0);
          year0 = C - 4715;
          year1 = (if month1 > 2 then year0 - 1 else year0)
      in set_second seconds (set_minute minutes (set_hour hours (set_date day
           (set_month (month1 - 1) (set_year year1
              (utc 2000 0 1 12 0 0 ''2000-01-01T12:00:00'')))))))"

definition JDToT :: "real \<Rightarrow> real" where
  "JDToT JD = (JD - 2451545) / 36525"

definition datetimeToT :: "datetime \<Rightarrow> real" where
  "datetimeToT datetime = JDToT (datetimeToJD datetime)"

subsection \<open>DeltaT\<close>

text \<open>
  \<open>DeltaT\<close> switches on the fractional year. The first case stores \<open>false\<close> instead of a
  number: that result is \<open>None\<close> here.
\<close>

definition DeltaT_of_year :: "real \<Rightarrow> real option" where
  "DeltaT_of_year y =
    (if y < -1999 then None
     else if y < -500 then
       (let u = (y - 1820) / 100 in Some (-20 + 32 * u * u))
     else if y < 500 then
       (let u = y / 100 in
        Some (10583.6 - 1014.41 * u + 33.78311 * u * u - 5.952053 * u * u * u -
              0.1798452 * u * u * u * u + 0.022174192 * u * u * u * u * u +
              0.0090316521 * u * u * u * u * u * u))
     else if y < 1600 then
       (let u = (y - 1000) / 100 in
        Some (1574.2 - 556.01 * u + 71.23472 * u * u + 0.319781 * u * u * u -
              0.8503463 * u * u * u * u - 0.005050998 * u * u * u * u * u +
              0.0083572073 * u * u * u * u * u * u))
     else if y < 1700 then
       (let t = y - 1600 in
        Some (120 - 0.9808 * t - 0.01532 * t * t + t * t * t / 7129))
     else if y < 1800 then
       (let t = y - 1700 in
        Some (8.83 + 0.1603 * t - 0.0059285 * t * t + 0.00013336 * t * t * t -
              t * t * t * t / 1174000))
     else if y < 1860 then
       (let t = y - 1800 in
        Some (13.72 - 0.332447 * t + 0.0068612 * t * t +
              0.0041116 * t * t * t - 0.00037436 * t * t * t * t +
              0.0000121272 * t * t * t * t * t -
              0.0000001699 * t * t * t * t * t * t +
              0.000000000875 * t * t * t * t * t * t * t))
     else if y < 1900 then
       (let t = y - 1860 in
        Some (7.62 + 0.5737 * t - 0.251754 * t * t + 0.01680668 * t * t * t -
              0.0004473624 * t * t * t * t + t * t * t * t * t / 233174))
     else if y < 1920 then
       (let t = y - 1900 in
        Some (-2.79 + 1.494119 * t - 0.0598939 * t * t +
              0.0061966 * t * t * t - 0.000197 * t * t * t * t))
     else if y < 1941 then
       (let t = y - 1920 in
        Some (21.20 + 0.84493 * t - 0.076100 * t * t + 0.0020936 * t * t * t))
     else if y < 1961 then
       (let t = y - 1950 in
        Some (29.07 + 0.407 * t - t * t / 233 + t * t * t / 2547))
     else if y < 1986 then
       (let t = y - 1975 in
        Some (45.45 + 1.067 * t - t * t / 260 - t * t * t / 718))
     else if y < 2005 then
       (let t = y - 2000 in
        Some (63.86 + 0.3345 * t - 0.060374 * t * t + 0.0017275 * t * t * t +
              0.000651814 * t * t * t * t + 0.00002373599 * t * t * t * t * t))
     else if y < 2050 then
       (let t = y - 2000 in
        Some (62.92 + 0.32217 * t + 0.005589 * t * t))
     else if y < 2150 then
       Some (-20 + 32 * ((y - 1820) / 100) * ((y - 1820) / 100) -
             0.5628 * (2150 - y))
     else
       (let u = (y - 1820) / 100 in Some (-20 + 32 * u * u)))"

definition DeltaT :: "datetime \<Rightarrow> real option" where
  "DeltaT datetime =
     DeltaT_of_year (real_of_int (year datetime) + (real_of_int (month datetime) + 0.5) / 12)"

text \<open>
  Where the library uses the result of \<open>DeltaT\<close> in arithmetic, JavaScript converts
  \<open>false\<close> to 0.
\<close>

definition toNumber :: "real option \<Rightarrow> real" where
  "toNumber v = (case v of None \<Rightarrow> 0 | Some x \<Rightarrow> x)"

subsection \<open>normalizeM\<close>

definition normalizeM :: "real \<Rightarrow> int \<Rightarrow> real" where
  "normalizeM m utcOffset' =
     (let localM = m + real_of_int utcOffset' / 1440 in
      if localM < 0 then m + 1
      else if localM > 1 then m - 1
      else m)"

subsection \<open>Angles, polynomials and interpolation\<close>

text \<open>
  Infinities, NaN and the rounding of floating-point numbers are not modelled: the
  operations below are those of the real numbers, and a quotient whose divisor is 0 is 0.
\<close>

definition deg2rad :: "real \<Rightarrow> real" where
  "deg2rad deg = deg * 0.017453292519943295"

definition rad2deg :: "real \<Rightarrow> real" where
  "rad2deg rad = rad * 57.29577951308232"

definition sind :: "real \<Rightarrow> real" where
  "sind deg = sin (deg2rad deg)"

definition cosd :: "real \<Rightarrow> real" where
  "cosd deg = cos (deg2rad deg)"

definition reduceAngle :: "real \<Rightarrow> real" where
  "reduceAngle angle = angle - 360 * real_of_int \<lfloor>angle / 360\<rfloor>"

text \<open>\<open>Math.atan2\<close>, without the signed zeros.\<close>

definition atan2 :: "real \<Rightarrow> real \<Rightarrow> real" where
  "atan2 y x =
     (if 0 < x then arctan (y / x)
      else if x < 0 \<and> 0 \<le> y then arctan (y / x) + pi
      else if x < 0 then arctan (y / x) - pi
      else if 0 < y then pi / 2
      else if y < 0 then - pi / 2
      else 0)"

text \<open>The loop of \<open>polynomial\<close> carries the sum and the power of the variable.\<close>

fun polynomial_loop :: "real \<Rightarrow> real list \<Rightarrow> real \<Rightarrow> real \<Rightarrow> real" where
  "polynomial_loop variable [] varPower acc = acc"
| "polynomial_loop variable (c # coeffs) varPower acc =
     polynomial_loop variable coeffs (varPower * variable) (acc + varPower * c)"

definition polynomial :: "real \<Rightarrow> real list \<Rightarrow> real" where
  "polynomial variable coeffs = polynomial_loop variable coeffs 1 0"

definition interpolateFromThree :: "real \<Rightarrow> real \<Rightarrow> real \<Rightarrow> real \<Rightarrow> bool \<Rightarrow> real" where
  "interpolateFromThree y1 y2 y3 n normalize' =
     (let a0 = y2 - y1; b0 = y3 - y2;
          a = (if normalize' \<and> a0 < 0 then a0 + 360 else a0);
          b = (if normalize' \<and> b0 < 0 then b0 + 360 else b0);
          c = b - a
      in y2 + (n / 2) * (a + b + n * c))"

subsection \<open>Moon phases\<close>

definition approxK :: "datetime \<Rightarrow> real" where
  "approxK datetime =
     (let year' = real_of_int (year datetime) + (real_of_int (month datetime) + 1) / 12 +
            real_of_int (date datetime) / 365.25
      in (year' - 2000) * 12.3685)"

definition kToT :: "real \<Rightarrow> real" where
  "kToT k = k / 1236.85"

definition meanPhase :: "real \<Rightarrow> real \<Rightarrow> real" where
  "meanPhase T k = 2451550.09766 + 29.530588861 * k + 0.00015437 * T * T -
     0.000000150 * T * T * T + 0.00000000073 * T * T * T * T"

definition sunMeanAnomaly :: "real \<Rightarrow> real \<Rightarrow> real" where
  "sunMeanAnomaly T k = 2.5534 + 29.10535670 * k - 0.0000014 * T * T -
     0.00000011 * T * T * T"

definition moonMeanAnomaly :: "real \<Rightarrow> real \<Rightarrow> real" where
  "moonMeanAnomaly T k = 201.5643 + 385.81693528 * k + 0.0107582 * T * T +
     0.00001238 * T * T * T - 0.000000058 * T * T * T * T"

definition moonArgumentOfLatitude :: "real \<Rightarrow> real \<Rightarrow> real" where
  "moonArgumentOfLatitude T k = 160.7108 + 390.67050284 * k - 0.0016118 * T * T -
     0.00000227 * T * T * T + 0.000000011 * T * T * T * T"

definition moonAscendingNodeLongitude :: "real \<Rightarrow> real \<Rightarrow> real" where
  "moonAscendingNodeLongitude T k = 124.7746 - 1.56375588 * k + 0.0020672 * T * T +
     0.00000215 * T * T * T"

definition eccentricityCorrection :: "real \<Rightarrow> real" where
  "eccentricityCorrection T = 1 - 0.002516 * T - 0.0000074 * T * T"

text \<open>The planetary arguments \<open>A[0]\<close> to \<open>A[14]\<close>, as a list.\<close>

definition planetaryArguments :: "real \<Rightarrow> real \<Rightarrow> real list" where
  "planetaryArguments T k =
     [0,
      299.77 + 0.107408 * k - 0.009173 * T * T,
      251.88 + 0.016321 * k,
      251.83 + 26.651886 * k,
      349.42 + 36.412478 * k,
      84.66 + 18.206239 * k,
      141.74 + 53.303771 * k,
      207.14 + 2.453732 * k,
      154.84 + 7.306860 * k,
      34.52 + 27.261239 * k,
      207.19 + 0.121824 * k,
      291.34 + 1.844379 * k,
      161.72 + 24.198154 * k,
      239.56 + 25.513099 * k,
      331.55 + 3.592518 * k]"

definition commonCorrections :: "real list \<Rightarrow> real" where
  "commonCorrections A =
     0.000325 * sind (A ! 1) +
     0.000165 * sind (A ! 2) +
     0.000164 * sind (A ! 3) +
     0.000126 * sind (A ! 4) +
     0.000110 * sind (A ! 5) +
     0.000062 * sind (A ! 6) +
     0.000060 * sind (A ! 7) +
     0.000056 * sind (A ! 8) +
     0.000047 * sind (A ! 9) +
     0.000042 * sind (A ! 10) +
     0.000040 * sind (A ! 11) +
     0.000037 * sind (A ! 12) +
     0.000035 * sind (A ! 13) +
     0.000023 * sind (A ! 14)"

definition newMoonFullMoonCorrections ::
  "real \<Rightarrow> real \<Rightarrow> real \<Rightarrow> real \<Rightarrow> real \<Rightarrow> real \<Rightarrow> real" where
  "newMoonFullMoonCorrections E M MPrime F Omega phase =
     (let DeltaJDE =
          - 0.00111 * sind (MPrime - 2 * F) -
          0.00057 * sind (MPrime + 2 * F) +
          0.00056 * E * sind (2 * MPrime + M) -
          0.00042 * sind (3 * MPrime) +
          0.00042 * E * sind (M + 2 * F) +
          0.00038 * E * sind (M - 2 * F) -
          0.00024 * E * sind (2 * MPrime - M) -
          0.00017 * sind Omega -
          0.00007 * sind (MPrime + 2 * M) +
          0.00004 * sind (2 * MPrime - 2 * F) +
          0.00004 * sind (3 * M) +
          0.00003 * sind (MPrime + M - 2 * F) +
          0.00003 * sind (2 * MPrime + 2 * F) -
          0.00003 * sind (MPrime + M + 2 * F) +
          0.00003 * sind (MPrime - M + 2 * F) -
          0.00002 * sind (MPrime - M - 2 * F) -
          0.00002 * sind (3 * MPrime + M) +
          0.00002 * sind (4 * MPrime)
      in if phase = 0 then
           DeltaJDE + (- 0.40720 * sind MPrime +
             0.17241 * E * sind M +
             0.01608 * sind (2 * MPrime) +
             0.01039 * sind (2 * F) +
             0.00739 * E * sind (MPrime - M) -
             0.00514 * E * sind (MPrime + M) +
             0.00208 * E * E * sind (2 * M))
         else if phase = 2 then
           DeltaJDE + (- 0.40614 * sind MPrime +
             0.17302 * E * sind M +
             0.01614 * sind (2 * MPrime) +
             0.01043 * sind (2 * F) +
             0.00734 * E * sind (MPrime - M) -
             0.00515 * E * sind (MPrime + M) +
             0.00209 * E * E * sind (2 * M))
         else DeltaJDE)"

definition quarterCorrections ::
  "real \<Rightarrow> real \<Rightarrow> real \<Rightarrow> real \<Rightarrow> real \<Rightarrow> real \<Rightarrow> real" where
  "quarterCorrections E M MPrime F Omega phase =
     (let DeltaJDE =
          - 0.62801 * sind MPrime +
          0.17172 * E * sind M -
          0.01183 * E * sind (MPrime + M) +
          0.00862 * sind (2 * MPrime) +
          0.00804 * sind (2 * F) +
          0.00454 * E * sind (MPrime - M) +
          0.00204 * E * E * sind (2 * M) -
          0.00180 * sind (MPrime - 2 * F) -
          0.00070 * sind (MPrime + 2 * F) -
          0.00040 * sind (3 * MPrime) -
          0.00034 * E * sind (2 * MPrime - M) +
          0.00032 * E * sind (M + 2 * F) +
          0.00032 * E * sind (M - 2 * F) -
          0.00028 * E * E * sind (MPrime + 2 * M) +
          0.00027 * E * sind (2 * MPrime + M) -
          0.00017 * sind Omega -
          0.00005 * sind (MPrime - M - 2 * F) +
          0.00004 * sind (2 * MPrime + 2 * F) -
          0.00004 * sind (MPrime + M + 2 * F) +
          0.00004 * sind (MPrime - 2 * M) +
          0.00003 * sind (MPrime + M - 2 * F) +
          0.00003 * sind (3 * M) +
          0.00002 * sind (2 * MPrime - 2 * F) +
          0.00002 * sind (MPrime - M + 2 * F) -
          0.00002 * sind (3 * MPrime + M);
          W = 0.00306 -
          0.00038 * E * cosd M +
          0.00026 * cosd MPrime -
          0.00002 * cosd (MPrime - M) +
          0.00002 * cosd (MPrime + M) +
          0.00002 * cosd (2 * F)
      in if phase = 1 then DeltaJDE + W
         else if phase = 3 then DeltaJDE - W
         else DeltaJDE)"

text \<open>
  The phase is a JavaScript number. \<open>truePhase\<close> adds a quarter of it to \<open>k\<close> and picks the
  corrections by comparing it with 0, 2, 1 and 3; for any other number neither branch runs.
\<close>

definition truePhase :: "real \<Rightarrow> real \<Rightarrow> real" where
  "truePhase k0 phase =
     (let k = k0 + phase / 4;
          T = kToT k;
          E = eccentricityCorrection T;
          JDE = meanPhase T k;
          M = sunMeanAnomaly T k;
          MPrime = moonMeanAnomaly T k;
          F = moonArgumentOfLatitude T k;
          Omega = moonAscendingNodeLongitude T k;
          A = planetaryArguments T k;
          DeltaJDE0 =
            (if phase = 0 \<or> phase = 2 then
               0 + newMoonFullMoonCorrections E M MPrime F Omega phase
             else if phase = 1 \<or> phase = 3 then
               0 + quarterCorrections E M MPrime F Omega phase
             else 0);
          DeltaJDE = DeltaJDE0 + commonCorrections A
      in JDE + DeltaJDE)"

subsection \<open>Position of the sun\<close>

definition sunMeanAnomaly_1 :: "real list" where
  "sunMeanAnomaly_1 = [357.52772, 35999.050340, - 0.0001603, - 1 / 300000]"

definition sunMeanLongitude :: "real list" where
  "sunMeanLongitude = [280.46646, 36000.76983, 0.0003032]"

definition meanObliquityOfEcliptic :: "real list" where
  "meanObliquityOfEcliptic =
     [84381.448 / 3600, - 4680.93 / 3600, - 1.55 / 3600, 1999.25 / 3600,
      - 51.38 / 3600, - 249.67 / 3600, - 39.05 / 3600, 7.12 / 3600, 27.87 / 3600,
      5.79 / 3600, 2.45 / 3600]"

definition moonArgumentOfLatitude_1 :: "real list" where
  "moonArgumentOfLatitude_1 = [93.27191, 483202.017538, - 0.0036825, 1 / 327270]"

definition moonAscendingNodeLongitude_1 :: "real list" where
  "moonAscendingNodeLongitude_1 = [125.04452, - 1934.136261, 0.0020708, 1 / 450000]"

definition moonMeanAnomaly_1 :: "real list" where
  "moonMeanAnomaly_1 = [134.96298, 477198.867398, 0.0086972, 1 / 56250]"

definition moonMeanElongation :: "real list" where
  "moonMeanElongation = [297.85036, 445267.111480, - 0.0019142, 1 / 189474]"

text \<open>The 63 rows of the nutation table; a row is the tuple of its nine numbers.\<close>

type_synonym nutation_row = "real \<times> real \<times> real \<times> real \<times> real \<times> real \<times> real \<times> real \<times> real"

definition nutations :: "nutation_row list" where
  "nutations =
     [
      (0, 0, 0, 0, 1, - 171996, - 174.2, 92025, 8.9),
      (- 2, 0, 0, 2, 2, - 13187, - 1.6, 5736, - 3.1),
      (0, 0, 0, 2, 2, - 2274, - 0.2, 977, - 0.5),
      (0, 0, 0, 0, 2, 2062, 0.2, - 895, 0.5),
      (0, 1, 0, 0, 0, 1426, - 3.4, 54, - 0.1),
      (0, 0, 1, 0, 0, 712, 0.1, - 7, 0),
      (- 2, 1, 0, 2, 2, - 517, 1.2, 224, - 0.6),
      (0, 0, 0, 2, 1, - 386, - 0.4, 200, 0),
      (0, 0, 1, 2, 2, - 301, 0, 129, - 0.1),
      (- 2, - 1, 0, 2, 2, 217, - 0.5, - 95, 0.3),
      (- 2, 0, 1, 0, 0, - 158, 0, 0, 0),
      (- 2, 0, 0, 2, 1, 129, 0.1, - 70, 0),
      (0, 0, - 1, 2, 2, 123, 0, - 53, 0),
      (2, 0, 0, 0, 0, 63, 0, 0, 0),
      (0, 0, 1, 0, 1, 63, 0.1, - 33, 0),
      (2, 0, - 1, 2, 2, - 59, 0, 26, 0),
      (0, 0, - 1, 0, 1, - 58, - 0.1, 32, 0),
      (0, 0, 1, 2, 1, - 51, 0, 27, 0),
      (- 2, 0, 2, 0, 0, 48, 0, 0, 0),
      (0, 0, - 2, 2, 1, 46, 0, - 24, 0),
      (2, 0, 0, 2, 2, - 38, 0, 16, 0),
      (0, 0, 2, 2, 2, - 31, 0, 13, 0),
      (0, 0, 2, 0, 0, 29, 0, 0, 0),
      (- 2, 0, 1, 2, 2, 29, 0, - 12, 0),
      (0, 0, 0, 2, 0, 26, 0, 0, 0),
      (- 2, 0, 0, 2, 0, - 22, 0, 0, 0),
      (0, 0, - 1, 2, 1, 21, 0, - 10, 0),
      (0, 2, 0, 0, 0, 17, - 0.1, 0, 0),
      (2, 0, - 1, 0, 1, 16, 0, - 8, 0),
      (- 2, 2, 0, 2, 2, - 16, 0.1, 7, 0),
      (0, 1, 0, 0, 1, - 15, 0, 9, 0),
      (- 2, 0, 1, 0, 1, - 13, 0, 7, 0),
      (0, - 1, 0, 0, 1, - 12, 0, 6, 0),
      (0, 0, 2, - 2, 0, 11, 0, 0, 0),
      (2, 0, - 1, 2, 1, - 10, 0, 5, 0),
      (2, 0, 1, 2, 2, - 8, 0, 3, 0),
      (0, 1, 0, 2, 2, 7, 0, - 3, 0),
      (- 2, 1, 1, 0, 0, - 7, 0, 0, 0),
      (0, - 1, 0, 2, 2, - 7, 0, 3, 0),
      (2, 0, 0, 2, 1, - 7, 0, 3, 0),
      (2, 0, 1, 0, 0, 6, 0, 0, 0),
      (- 2, 0, 2, 2, 2, 6, 0, - 3, 0),
      (- 2, 0, 1, 2, 1, 6, 0, - 3, 0),
      (2, 0, - 2, 0, 1, - 6, 0, 3, 0),
      (2, 0, 0, 0, 1, - 6, 0, 3, 0),
      (0, - 1, 1, 0, 0, 5, 0, 0, 0),
      (- 2, - 1, 0, 2, 1, - 5, 0, 3, 0),
      (- 2, 0, 0, 0, 1, - 5, 0, 3, 0),
      (0, 0, 2, 2, 1, - 5, 0, 3, 0),
      (- 2, 0, 2, 0, 1, 4, 0, 0, 0),
      (- 2, 1, 0, 2, 1, 4, 0, 0, 0),
      (0, 0, 1, - 2, 0, 4, 0, 0, 0),
      (- 1, 0, 1, 0, 0, - 4, 0, 0, 0),
      (- 2, 1, 0, 0, 0, - 4, 0, 0, 0),
      (1, 0, 0, 0, 0, - 4, 0, 0, 0),
      (0, 0, 1, 2, 0, 3, 0, 0, 0),
      (0, 0, - 2, 2, 2, - 3, 0, 0, 0),
      (- 1, - 1, 1, 0, 0, - 3, 0, 0, 0),
      (0, 1, 1, 0, 0, - 3, 0, 0, 0),
      (0, - 1, 1, 2, 2, - 3, 0, 0, 0),
      (2, - 1, - 1, 2, 2, - 3, 0, 0, 0),
      (0, 0, 3, 2, 2, 3, 0, 0, 0),
      (2, - 1, 0, 2, 2, - 3, 0, 0, 0)]"

definition moonArgumentOfLatitude_2 :: "real \<Rightarrow> real" where
  "moonArgumentOfLatitude_2 T = reduceAngle (polynomial T moonArgumentOfLatitude_1)"

definition moonAscendingNodeLongitude_2 :: "real \<Rightarrow> real" where
  "moonAscendingNodeLongitude_2 T = reduceAngle (polynomial T moonAscendingNodeLongitude_1)"

definition moonMeanAnomaly_2 :: "real \<Rightarrow> real" where
  "moonMeanAnomaly_2 T = reduceAngle (polynomial T moonMeanAnomaly_1)"

definition moonMeanElongation_1 :: "real \<Rightarrow> real" where
  "moonMeanElongation_1 T = reduceAngle (polynomial T moonMeanElongation)"

definition sunMeanAnomaly_2 :: "real \<Rightarrow> real" where
  "sunMeanAnomaly_2 T = reduceAngle (polynomial T sunMeanAnomaly_1)"

definition sunMeanLongitude_1 :: "real \<Rightarrow> real" where
  "sunMeanLongitude_1 T = reduceAngle (polynomial T sunMeanLongitude)"

text \<open>The two loops over the rows of the table add one term per row.\<close>

fun nutationInLongitude_loop ::
  "real \<Rightarrow> real \<Rightarrow> real \<Rightarrow> real \<Rightarrow> real \<Rightarrow> real \<Rightarrow> nutation_row list \<Rightarrow> real \<Rightarrow> real" where
  "nutationInLongitude_loop T D M MPrime F Omega [] DeltaPsi = DeltaPsi"
| "nutationInLongitude_loop T D M MPrime F Omega ((n0, n1, n2, n3, n4, n5, n6, n7, n8) # rows)
       DeltaPsi =
     (let sineArg = n0 * D + n1 * M + n2 * MPrime + n3 * F + n4 * Omega
      in nutationInLongitude_loop T D M MPrime F Omega rows
           (DeltaPsi + (n5 + n6 * T) * sind sineArg))"

definition nutationInLongitude :: "real \<Rightarrow> real" where
  "nutationInLongitude T =
     (let D = moonMeanElongation_1 T;
          M = sunMeanAnomaly_2 T;
          MPrime = moonMeanAnomaly_2 T;
          F = moonArgumentOfLatitude_2 T;
          Omega = moonAscendingNodeLongitude_2 T
      in nutationInLongitude_loop T D M MPrime F Omega (take 63 nutations) 0 / 36000000)"

fun nutationInObliquity_loop ::
  "real \<Rightarrow> real \<Rightarrow> real \<Rightarrow> real \<Rightarrow> real \<Rightarrow> real \<Rightarrow> nutation_row list \<Rightarrow> real \<Rightarrow> real" where
  "nutationInObliquity_loop T D M MPrime F Omega [] DeltaEpsilon = DeltaEpsilon"
| "nutationInObliquity_loop T D M MPrime F Omega ((n0, n1, n2, n3, n4, n5, n6, n7, n8) # rows)
       DeltaEpsilon =
     (let cosArg = n0 * D + n1 * M + n2 * MPrime + n3 * F + n4 * Omega
      in nutationInObliquity_loop T D M MPrime F Omega rows
           (DeltaEpsilon + (n7 + n8 * T) * cosd cosArg))"

definition nutationInObliquity :: "real \<Rightarrow> real" where
  "nutationInObliquity T =
     (let D = moonMeanElongation_1 T;
          M = sunMeanAnomaly_2 T;
          MPrime = moonMeanAnomaly_2 T;
          F = moonArgumentOfLatitude_2 T;
          Omega = moonAscendingNodeLongitude_2 T
      in nutationInObliquity_loop T D M MPrime F Omega (take 63 nutations) 0 / 36000000)"

definition sunEquationOfCenter :: "real \<Rightarrow> real" where
  "sunEquationOfCenter T =
     (let M = sunMeanAnomaly_2 T
      in (1.914602 - 0.004817 * T - 0.000014 * T * T) * sind M +
         (0.019993 - 0.000101 * T) * sind (2 * M) +
         0.000290 * sind (3 * M))"

definition sunTrueLongitude :: "real \<Rightarrow> real" where
  "sunTrueLongitude T = sunMeanLongitude_1 T + sunEquationOfCenter T"

definition sunApparentLongitude :: "real \<Rightarrow> real" where
  "sunApparentLongitude T =
     (let Sol = sunTrueLongitude T;
          Omega = moonAscendingNodeLongitude_2 T
      in Sol - 0.00569 - 0.00478 * sind Omega)"

definition meanObliquityOfEcliptic_1 :: "real \<Rightarrow> real" where
  "meanObliquityOfEcliptic_1 T = (let U = T / 100 in polynomial U meanObliquityOfEcliptic)"

definition trueObliquityOfEcliptic :: "real \<Rightarrow> real" where
  "trueObliquityOfEcliptic T = meanObliquityOfEcliptic_1 T + nutationInObliquity T"

definition meanSiderealTimeGreenwhich :: "real \<Rightarrow> real" where
  "meanSiderealTimeGreenwhich T =
     (let JD2000 = T * 36525
      in 280.46061837 + 360.98564736629 * JD2000 + 0.000387933 * T * T -
         T * T * T / 38710000)"

definition apparentSiderealTimeGreenwhich :: "real \<Rightarrow> real" where
  "apparentSiderealTimeGreenwhich T =
     (let theta0 = meanSiderealTimeGreenwhich T;
          epsilon = trueObliquityOfEcliptic T;
          DeltaPsi = nutationInLongitude T;
          theta = theta0 + DeltaPsi * cosd epsilon
      in reduceAngle theta)"

definition sunApparentRightAscension :: "real \<Rightarrow> real" where
  "sunApparentRightAscension T =
     (let Omega = moonAscendingNodeLongitude_2 T;
          epsilon = trueObliquityOfEcliptic T + 0.00256 * cosd Omega;
          lambda = sunApparentLongitude T;
          alpha = rad2deg (atan2 (cosd epsilon * sind lambda) (cosd lambda))
      in reduceAngle alpha)"

definition sunApparentDeclination :: "real \<Rightarrow> real" where
  "sunApparentDeclination T =
     (let Omega = moonAscendingNodeLongitude_2 T;
          epsilon = trueObliquityOfEcliptic T + 0.00256 * cosd Omega;
          lambda = sunApparentLongitude T
      in rad2deg (arcsin (sind epsilon * sind lambda)))"

definition interpolatedRa :: "real \<Rightarrow> real \<Rightarrow> real" where
  "interpolatedRa T n =
     (let alpha1 = sunApparentRightAscension (T - (1 / 36525));
          alpha2 = sunApparentRightAscension T;
          alpha3 = sunApparentRightAscension (T + (1 / 36525));
          alpha = interpolateFromThree alpha1 alpha2 alpha3 n True
      in reduceAngle alpha)"

definition interpolatedDec :: "real \<Rightarrow> real \<Rightarrow> real" where
  "interpolatedDec T n =
     (let delta1 = sunApparentDeclination (T - (1 / 36525));
          delta2 = sunApparentDeclination T;
          delta3 = sunApparentDeclination (T + (1 / 36525));
          delta = interpolateFromThree delta1 delta2 delta3 n False
      in reduceAngle delta)"

definition altitude :: "real \<Rightarrow> real \<Rightarrow> real \<Rightarrow> real" where
  "altitude phi delta H =
     rad2deg (arcsin (sind phi * sind delta + cosd phi * cosd delta * cosd H))"

definition localHourAngle :: "real \<Rightarrow> real \<Rightarrow> real \<Rightarrow> real" where
  "localHourAngle theta0 L alpha =
     (let H = reduceAngle (theta0 + L - alpha)
      in if H > 180 then H - 360 else H)"

definition sunRiseSetCorrection ::
  "real \<Rightarrow> real \<Rightarrow> real \<Rightarrow> real \<Rightarrow> real \<Rightarrow> real \<Rightarrow> real" where
  "sunRiseSetCorrection T Theta0 DeltaT' phi L m =
     (let theta0 = Theta0 + 360.985647 * m;
          n = m + DeltaT' / 864000;
          alpha = interpolatedRa T n;
          delta = interpolatedDec T n;
          H = localHourAngle theta0 L alpha;
          h = altitude phi delta H
      in (h + 50 / 60) / (360 * cosd delta * cosd phi * sind H))"


subsection \<open>The module state, the objects and the time zones\<close>

text \<open>
  The module keeps three variables that \<open>options\<close> assigns. The moment objects live in a
  store: a reference is an index into the list of objects, a new object goes to the end of
  the list, and a method that changes a moment replaces the object at its index. The state
  threaded through the operations holds the variables and the store.
\<close>

record state =
  roundToNearestMinute :: bool
  returnTimeForPNMS :: bool
  dateFormatKeys :: "string \<Rightarrow> string option"
  heap :: "datetime list"

text \<open>
  What a function returns or throws: a reference to a moment, a string, \<open>false\<close>, or the
  TypeError of calling a method that does not exist.
\<close>

datatype jsval = Ref nat | Str string | JSFalse | TypeError

definition alloc :: "datetime \<Rightarrow> state \<Rightarrow> nat \<times> state" where
  "alloc d s = (length (heap s), s\<lparr>heap := heap s @ [d]\<rparr>)"

definition update :: "nat \<Rightarrow> (datetime \<Rightarrow> datetime) \<Rightarrow> state \<Rightarrow> state" where
  "update r f s = s\<lparr>heap := (heap s)[r := f (heap s ! r)]\<rparr>"

text \<open>
  The time zone data is not part of the library either. \<open>zoneOffset z v\<close> is the offset
  from UTC, in minutes, of zone \<open>z\<close> at time value \<open>v\<close>, \<open>zoneDST\<close> tells whether daylight
  saving time holds there, and \<open>localOffset y\<close> is the offset of the zone of the process at
  the local midnight that starts year \<open>y\<close>.
\<close>

record tzdb =
  zoneOffset :: "string \<Rightarrow> int \<Rightarrow> int"
  zoneDST :: "string \<Rightarrow> int \<Rightarrow> bool"
  localZone :: string
  localOffset :: "int \<Rightarrow> int"

text \<open>
  \<open>m.tz(name)\<close> shows the same time value in another zone. With the name of a moment that
  has none, which is undefined, the call is the getter and changes nothing.
\<close>

definition setZone :: "tzdb \<Rightarrow> string \<Rightarrow> datetime \<Rightarrow> datetime" where
  "setZone db z dt =
     (if z = [] then dt
      else (let v = valueOf dt; off = zoneOffset db z v
            in (withValue (dt\<lparr>utcOffset := off\<rparr>) v)\<lparr>tz := z, isDST := zoneDST db z v\<rparr>))"

text \<open>A setter on a moment with a zone keeps the local fields and looks the offset up again.\<close>

definition zoned :: "tzdb \<Rightarrow> (datetime \<Rightarrow> datetime) \<Rightarrow> datetime \<Rightarrow> datetime" where
  "zoned db f dt =
     (let y = f dt; v = valueOf y
      in y\<lparr>utcOffset := zoneOffset db (tz y) v, isDST := zoneDST db (tz y) v\<rparr>)"

text \<open>
  The two moments that \<open>approxLocalHourAngle\<close> throws: noon of 2000-01-01 in London, where
  the offset is 0 then, created from a text that starts with the marker.
\<close>

definition placeholder :: "string \<Rightarrow> datetime" where
  "placeholder input =
     \<lparr>year = 2000, month = 0, date = 1, hour = 12, minute = 0, second = 0,
       millisecond = 0, tz = ''Europe/London'', utcOffset = 0, isDST = False,
       creationInput = input\<rparr>"

subsection \<open>Sunrise, sunset and transit\<close>

text \<open>\<open>cosH0\<close> is the value of the variable of that name in \<open>approxLocalHourAngle\<close>.\<close>

definition cosH0 :: "real \<Rightarrow> real \<Rightarrow> real" where
  "cosH0 phi delta =
     (sind (- 50 / 60) - sind phi * sind delta) / (cosd phi * cosd delta)"

definition approxLocalHourAngle :: "state \<Rightarrow> real \<Rightarrow> real \<Rightarrow> (jsval + real) \<times> state" where
  "approxLocalHourAngle s phi delta =
     (if cosH0 phi delta < - 1 then
        (if returnTimeForPNMS s then
           (case alloc (placeholder ''**2000-01-01 12:00:00'') s of
              (r, s') \<Rightarrow> (Inl (Ref r), s'))
         else (Inl (Str ''MS''), s))
      else if cosH0 phi delta > 1 then
        (if returnTimeForPNMS s then
           (case alloc (placeholder ''--2000-01-01 12:00:00'') s of
              (r, s') \<Rightarrow> (Inl (Ref r), s'))
         else (Inl (Str ''PN''), s))
      else (Inr (rad2deg (arccos (cosH0 phi delta))), s))"


text \<open>The loop of \<open>sunRiseSet\<close> runs while the last correction is large, three times at most.\<close>

fun sunRiseSet_loop ::
  "nat \<Rightarrow> real \<Rightarrow> real \<Rightarrow> real \<Rightarrow> real \<Rightarrow> real \<Rightarrow> real \<Rightarrow> real \<Rightarrow> real" where
  "sunRiseSet_loop 0 T Theta0 DeltaT' phi L DeltaM m = m"
| "sunRiseSet_loop (Suc n) T Theta0 DeltaT' phi L DeltaM m =
     (if \<bar>DeltaM\<bar> > 0.0001 then
        (let DeltaM' = sunRiseSetCorrection T Theta0 DeltaT' phi L m
         in sunRiseSet_loop n T Theta0 DeltaT' phi L DeltaM' (m + DeltaM'))
      else m)"

definition sunRiseSet ::
  "tzdb \<Rightarrow> state \<Rightarrow> nat \<Rightarrow> real \<Rightarrow> real \<Rightarrow> string \<Rightarrow> (jsval + jsval) \<times> state" where
  "sunRiseSet db s0 p phi L flag =
     (let datetime = heap s0 ! p;
          timezone = tz datetime
      in case alloc (utc (year datetime) (month datetime) (date datetime) 0 0 0 []) s0 of
        (suntime, s1) \<Rightarrow>
          (let DeltaT' = toNumber (DeltaT (heap s1 ! suntime));
               T = datetimeToT (heap s1 ! suntime);
               Theta0 = apparentSiderealTimeGreenwhich T;
               TD = T - (DeltaT' / (3600 * 24 * 36525));
               alpha = sunApparentRightAscension TD;
               delta = sunApparentDeclination TD
           in case approxLocalHourAngle s1 phi delta of
                (Inl thrown, s2) \<Rightarrow> (Inl thrown, s2)
              | (Inr H0, s2) \<Rightarrow>
                  (let m0 = normalizeM ((alpha - L - Theta0) / 360) (utcOffset datetime)
                   in if flag \<noteq> ''RISE'' \<and> flag \<noteq> ''SET'' then (Inr JSFalse, s2)
                      else
                        (let m1 = (if flag = ''RISE'' then m0 - H0 / 360 else m0 + H0 / 360);
                             m = sunRiseSet_loop 3 T Theta0 DeltaT' phi L 1 m1;
                             s3 = (if m > 0
                                   then update suntime
                                     (add_seconds (real_of_int \<lfloor>m * 3600 * 24 + 0.5\<rfloor>)) s2
                                   else update suntime
                                     (subtract_seconds
                                        (real_of_int \<lfloor>\<bar>m\<bar> * 3600 * 24 + 0.5\<rfloor>)) s2);
                             s4 = (if roundToNearestMinute s3
                                   then update suntime (set_second 0)
                                     (update suntime (add_seconds 30) s3)
                                   else s3);
                             s5 = update suntime (setZone db timezone) s4
                         in (Inr (Ref suntime), s5)))))"

text \<open>
  \<open>returnPNMS\<close> calls moment methods on what was thrown; on anything but a moment that
  is a TypeError. The chain of setters starts with \<open>returnDate.tz(date.tz())\<close>. For a date
  without a zone name, such as one made by \<open>moment.utc\<close>, \<open>date.tz()\<close> is undefined, and
  \<open>tz\<close> with an undefined argument is the getter: it returns the name of the zone of
  \<open>returnDate\<close>, a string, changes nothing, and the call of \<open>year\<close> on that string is a
  TypeError.
\<close>

definition returnPNMS ::
  "tzdb \<Rightarrow> state \<Rightarrow> jsval \<Rightarrow> nat \<Rightarrow> int \<Rightarrow> (jsval + jsval) \<times> state" where
  "returnPNMS db s returnDate p hour0 =
     (if returnTimeForPNMS s then
        (case returnDate of
           Ref r \<Rightarrow>
             (let d = heap s ! p;
                  hour1 = (if isDST d then hour0 + 1 else hour0)
              in if tz d = [] then (Inl TypeError, s)
                 else
                   (Inr (Ref r),
                    update r (\<lambda>x.
                      zoned db (set_second 0) (zoned db (set_minute 0) (zoned db (set_hour hour1)
                        (zoned db (set_date (date d)) (zoned db (set_month (month d))
                          (zoned db (set_year (year d)) (setZone db (tz d) x))))))) s))
         | _ \<Rightarrow> (Inl TypeError, s))
      else (Inr returnDate, s))"

definition sunrise :: "tzdb \<Rightarrow> state \<Rightarrow> nat \<Rightarrow> real \<Rightarrow> real \<Rightarrow> (jsval + jsval) \<times> state" where
  "sunrise db s p phi L =
     (case sunRiseSet db s p phi L ''RISE'' of
        (Inl err, s') \<Rightarrow> returnPNMS db s' err p 6
      | (Inr v, s') \<Rightarrow> (Inr v, s'))"

definition sunset :: "tzdb \<Rightarrow> state \<Rightarrow> nat \<Rightarrow> real \<Rightarrow> real \<Rightarrow> (jsval + jsval) \<times> state" where
  "sunset db s p phi L =
     (case sunRiseSet db s p phi L ''SET'' of
        (Inl err, s') \<Rightarrow> returnPNMS db s' err p 18
      | (Inr v, s') \<Rightarrow> (Inr v, s'))"


subsection \<open>Options\<close>

text \<open>
  The argument of \<open>options\<close>: a field is \<open>Some\<close> when the property has the type that
  \<open>options\<close> tests for, and \<open>None\<close> otherwise.
\<close>

record options_arg =
  opt_roundToNearestMinute :: "bool option"
  opt_returnTimeForPNMS :: "bool option"
  opt_dateFormatKeys :: "(string \<Rightarrow> string option) option"

definition options :: "options_arg \<Rightarrow> state \<Rightarrow> state" where
  "options opts s =
     (let s1 = (case opt_roundToNearestMinute opts of
                  Some b \<Rightarrow> s\<lparr>roundToNearestMinute := b\<rparr> | None \<Rightarrow> s);
          s2 = (case opt_returnTimeForPNMS opts of
                  Some b \<Rightarrow> s1\<lparr>returnTimeForPNMS := b\<rparr> | None \<Rightarrow> s1)
      in case opt_dateFormatKeys opts of
           Some k \<Rightarrow> s2\<lparr>dateFormatKeys := k\<rparr> | None \<Rightarrow> s2)"

text \<open>The state of the module when it is loaded, with an empty store.\<close>

definition initial_state :: state where
  "initial_state =
     \<lparr>roundToNearestMinute = False, returnTimeForPNMS = False,
       dateFormatKeys = [''**'' \<mapsto> [CHR 0xE2, CHR 0x80, CHR 0xA1],
                         ''--'' \<mapsto> [CHR 0xE2, CHR 0x80, CHR 0xA0]],
       heap = []\<rparr>"

subsection \<open>The moon phases of a year\<close>

text \<open>
  \<open>moment([year])\<close> is the local midnight that starts the year, in the zone of the
  process.
\<close>

definition localYearStart :: "tzdb \<Rightarrow> int \<Rightarrow> datetime" where
  "localYearStart db y =
     (let d = normalize \<lparr>year = y, month = 0, date = 1, hour = 0, minute = 0, second = 0,
                millisecond = 0, tz = localZone db, utcOffset = localOffset db y,
                isDST = False, creationInput = []\<rparr>
      in d\<lparr>isDST := zoneDST db (localZone db) (valueOf d)\<rparr>)"

text \<open>
  One round of the loop of \<open>yearMoonPhases\<close> creates the moment of the phase for \<open>k\<close>,
  moves it by \<open>DeltaT\<close>, and pushes it when it is inside the year.
\<close>

definition yearMoonPhases_step ::
  "tzdb \<Rightarrow> nat \<Rightarrow> nat \<Rightarrow> real \<Rightarrow> string option \<Rightarrow> real \<Rightarrow> nat list \<times> state
    \<Rightarrow> nat list \<times> state" where
  "yearMoonPhases_step db yearBegin yearEnd phase timezone k acc =
     (case acc of (phaseTimes, s0) \<Rightarrow>
        (let JDE = truePhase k phase
         in case alloc (JDToDatetime JDE) s0 of
           (moonDatetime, s1) \<Rightarrow>
             (let DeltaT' = DeltaT (heap s1 ! moonDatetime);
                  s2 = (if (case DeltaT' of None \<Rightarrow> False | Some d \<Rightarrow> d > 0)
                        then update moonDatetime (subtract_seconds \<bar>toNumber DeltaT'\<bar>) s1
                        else update moonDatetime (add_seconds \<bar>toNumber DeltaT'\<bar>) s1);
                  s3 = (if roundToNearestMinute s2
                        then update moonDatetime (set_second 0)
                          (update moonDatetime (add_seconds 30) s2)
                        else s2);
                  timezone' = (case timezone of None \<Rightarrow> ''UTC'' | Some z \<Rightarrow> z);
                  s4 = update moonDatetime (setZone db timezone') s3
              in if isAfter (heap s4 ! moonDatetime) (heap s4 ! yearBegin) \<and>
                    isBefore (heap s4 ! moonDatetime) (heap s4 ! yearEnd)
                 then (phaseTimes @ [moonDatetime], s4)
                 else (phaseTimes, s4))))"

fun yearMoonPhases_loop ::
  "tzdb \<Rightarrow> nat \<Rightarrow> nat \<Rightarrow> real \<Rightarrow> string option \<Rightarrow> nat \<Rightarrow> real \<Rightarrow> nat list \<times> state
    \<Rightarrow> nat list \<times> state" where
  "yearMoonPhases_loop db yearBegin yearEnd phase timezone 0 k acc = acc"
| "yearMoonPhases_loop db yearBegin yearEnd phase timezone (Suc n) k acc =
     yearMoonPhases_loop db yearBegin yearEnd phase timezone n (k + 1)
       (yearMoonPhases_step db yearBegin yearEnd phase timezone k acc)"

definition yearMoonPhases ::
  "tzdb \<Rightarrow> state \<Rightarrow> int \<Rightarrow> real \<Rightarrow> string option \<Rightarrow> nat list \<times> state" where
  "yearMoonPhases db s0 year0 phase timezone =
     (case alloc (localYearStart db year0) s0 of
        (yearBegin, s1) \<Rightarrow>
          (case alloc (localYearStart db (year0 + 1)) s1 of
             (yearEnd, s2) \<Rightarrow>
               (let k = real_of_int (\<lfloor>approxK (heap s2 ! yearBegin)\<rfloor> - 1)
                in yearMoonPhases_loop db yearBegin yearEnd phase timezone 15 k ([], s2))))"

subsection \<open>Notions of the proofs\<close>

text \<open>
  The year and the month as \<open>datetimeToJD\<close> counts them (January and February are months 13
  and 14 of the year before), the time of day as a fraction of a day, and the number of
  days of the Gregorian calendar before 1 March of a year.
\<close>

definition marchYear :: "datetime \<Rightarrow> int" where
  "marchYear dt = (if month dt + 1 < 3 then year dt - 1 else year dt)"

definition marchMonth :: "datetime \<Rightarrow> int" where
  "marchMonth dt = (if month dt + 1 < 3 then month dt + 1 + 12 else month dt + 1)"

definition timeOfDay :: "datetime \<Rightarrow> real" where
  "timeOfDay dt =
     (real_of_int (hour dt) +
       (real_of_int (minute dt) + real_of_int (second dt) / 60) / 60) / 24"

definition yearStart :: "int \<Rightarrow> int" where
  "yearStart Y = 365 * Y + Y div 4 - Y div 100 + Y div 400"

definition monthStart :: "int \<Rightarrow> int" where
  "monthStart M = \<lfloor>30.6001 * real_of_int (M + 1)\<rfloor>"

text \<open>
  The first instant whose fields, read in the Julian calendar, name a day that
  \<open>JDToDatetime\<close> takes for a Gregorian one.
\<close>

definition julianEnd :: datetime where
  "julianEnd = utc 1582 9 5 0 0 0 ''1582-10-05T00:00:00Z''"

text \<open>
  \<open>sunRiseSet_delta\<close> is the value of the variable \<open>delta\<close> of \<open>sunRiseSet\<close> for a
  datetime argument. \<open>extends s s'\<close> says that \<open>s'\<close> has the module variables and every
  object of \<open>s\<close> unchanged, and maybe new objects after them.
\<close>

definition sunRiseSet_delta :: "datetime \<Rightarrow> real" where
  "sunRiseSet_delta datetime =
     (let suntime = utc (year datetime) (month datetime) (date datetime) 0 0 0 [];
          DeltaT' = toNumber (DeltaT suntime);
          T = datetimeToT suntime;
          TD = T - (DeltaT' / (3600 * 24 * 36525))
      in sunApparentDeclination TD)"

definition extends :: "state \<Rightarrow> state \<Rightarrow> bool" where
  "extends s s' \<longleftrightarrow>
     roundToNearestMinute s' = roundToNearestMinute s \<and>
     returnTimeForPNMS s' = returnTimeForPNMS s \<and>
     dateFormatKeys s' = dateFormatKeys s \<and>
     take (length (heap s)) (heap s') = heap s"

text \<open>
  A date for the examples: 21 June 2000 in UTC, and the time \<open>TD\<close> that \<open>sunRiseSet\<close>
  computes for it.
\<close>

definition exampleDate :: datetime where
  "exampleDate =
     \<lparr>year = 2000, month = 5, date = 21, hour = 9, minute = 30, second = 0,
       millisecond = 0, tz = ''UTC'', utcOffset = 0, isDST = False,
       creationInput = ''2000-06-21T09:30:00Z''\<rparr>"

definition exampleTD :: real where
  "exampleTD =
     (let suntime = utc 2000 5 21 0 0 0 [];
          DeltaT' = toNumber (DeltaT suntime);
          T = datetimeToT suntime
      in T - (DeltaT' / (3600 * 24 * 36525)))"

text \<open>
  Time zone data with UTC only, a state of the module as loaded whose store holds the
  example date, and an argument of \<open>options\<close> that asks for times on days without sunrise.
\<close>

definition exampleZones :: tzdb where
  "exampleZones =
     \<lparr>zoneOffset = (\<lambda>z v. 0), zoneDST = (\<lambda>z v. False), localZone = ''UTC'',
       localOffset = (\<lambda>y. 0)\<rparr>"

definition exampleState :: state where
  "exampleState = initial_state\<lparr>heap := [exampleDate]\<rparr>"

text \<open>The same date as \<open>moment.utc\<close> makes it, a moment in UTC without a zone name.\<close>

definition exampleUtcDate :: datetime where
  "exampleUtcDate =
     \<lparr>year = 2000, month = 5, date = 21, hour = 9, minute = 30, second = 0,
       millisecond = 0, tz = [], utcOffset = 0, isDST = False,
       creationInput = ''2000-06-21T09:30:00Z''\<rparr>"

definition exampleUtcState :: state where
  "exampleUtcState = initial_state\<lparr>heap := [exampleUtcDate]\<rparr>"

definition exampleOptions :: options_arg where
  "exampleOptions =
     \<lparr>opt_roundToNearestMinute = None, opt_returnTimeForPNMS = Some True,
       opt_dateFormatKeys = None\<rparr>"



section \<open>Properties\<close>

subsection \<open>normalizeM\<close>

text \<open>
  C8, as the specification states it, says that \<open>normalizeM\<close> returns \<open>m\<close> unchanged exactly
  when \<open>m + utcOffset / 1440\<close> lies in the half-open interval from 0 to 1. At
  \<open>m = 1\<close> and offset \<open>0\<close> the sum is 1, outside that interval, and \<open>m\<close> comes back
  unchanged.
\<close>

theorem normalizeM_half_open_counterexample:
  "normalizeM 1 0 = 1 \<and> \<not> (0 \<le> (1::real) + real_of_int 0 / 1440 \<and> (1::real) + real_of_int 0 / 1440 < 1)"
  by (simp add: normalizeM_def)

text \<open>
  C8, amended: \<open>normalizeM\<close> returns \<open>m + 1\<close> exactly when \<open>m + utcOffset / 1440\<close> is
  below 0, returns \<open>m - 1\<close> exactly when it is above 1, and returns \<open>m\<close> unchanged exactly
  when it lies in the closed interval from 0 to 1.
\<close>

theorem normalizeM_closed_interval:
  "(normalizeM m off = m + 1 \<longleftrightarrow> m + real_of_int off / 1440 < 0) \<and>
   (normalizeM m off = m - 1 \<longleftrightarrow> m + real_of_int off / 1440 > 1) \<and>
   (normalizeM m off = m \<longleftrightarrow> 0 \<le> m + real_of_int off / 1440 \<and> m + real_of_int off / 1440 \<le> 1)"
  by (auto simp: normalizeM_def Let_def)

subsection \<open>DeltaT\<close>

lemma power_products:
  fixes c u :: real
  shows "c * u\<^sup>2 = c * u * u" "c * u ^ 3 = c * u * u * u" "c * u ^ 4 = c * u * u * u * u"
    "c * u ^ 5 = c * u * u * u * u * u" "c * u ^ 6 = c * u * u * u * u * u * u"
    "c * u ^ 7 = c * u * u * u * u * u * u * u"
    "u\<^sup>2 / d = u * u / d" "u ^ 3 / d = u * u * u / d" "u ^ 4 / d = u * u * u * u / d"
    "u ^ 5 / d = u * u * u * u * u / d"
  by (simp_all add: power_numeral_reduce mult.assoc)

text \<open>
  C6: for every fractional year below \<open>-1999\<close> the result of \<open>DeltaT\<close> is not a number
  (the library stores \<open>false\<close>); for every fractional year from \<open>-1999\<close> on it is the number
  given by the polynomial of the range that holds the year.
\<close>

theorem DeltaT_of_year_ranges:
  "(y < -1999 \<longrightarrow> DeltaT_of_year y = None) \<and>
   (-1999 \<le> y \<longrightarrow> DeltaT_of_year y \<noteq> None) \<and>
   (-1999 \<le> y \<and> y < -500 \<longrightarrow>
      DeltaT_of_year y = Some (-20 + 32 * ((y - 1820) / 100)\<^sup>2)) \<and>
   (-500 \<le> y \<and> y < 500 \<longrightarrow>
      DeltaT_of_year y = Some (10583.6 - 1014.41 * (y / 100) + 33.78311 * (y / 100)\<^sup>2
        - 5.952053 * (y / 100) ^ 3 - 0.1798452 * (y / 100) ^ 4
        + 0.022174192 * (y / 100) ^ 5 + 0.0090316521 * (y / 100) ^ 6)) \<and>
   (500 \<le> y \<and> y < 1600 \<longrightarrow>
      DeltaT_of_year y = Some (1574.2 - 556.01 * ((y - 1000) / 100)
        + 71.23472 * ((y - 1000) / 100)\<^sup>2 + 0.319781 * ((y - 1000) / 100) ^ 3
        - 0.8503463 * ((y - 1000) / 100) ^ 4 - 0.005050998 * ((y - 1000) / 100) ^ 5
        + 0.0083572073 * ((y - 1000) / 100) ^ 6)) \<and>
   (1600 \<le> y \<and> y < 1700 \<longrightarrow>
      DeltaT_of_year y = Some (120 - 0.9808 * (y - 1600) - 0.01532 * (y - 1600)\<^sup>2
        + (y - 1600) ^ 3 / 7129)) \<and>
   (1700 \<le> y \<and> y < 1800 \<longrightarrow>
      DeltaT_of_year y = Some (8.83 + 0.1603 * (y - 1700) - 0.0059285 * (y - 1700)\<^sup>2
        + 0.00013336 * (y - 1700) ^ 3 - (y - 1700) ^ 4 / 1174000)) \<and>
   (1800 \<le> y \<and> y < 1860 \<longrightarrow>
      DeltaT_of_year y = Some (13.72 - 0.332447 * (y - 1800) + 0.0068612 * (y - 1800)\<^sup>2
        + 0.0041116 * (y - 1800) ^ 3 - 0.00037436 * (y - 1800) ^ 4
        + 0.0000121272 * (y - 1800) ^ 5 - 0.0000001699 * (y - 1800) ^ 6
        + 0.000000000875 * (y - 1800) ^ 7)) \<and>
   (1860 \<le> y \<and> y < 1900 \<longrightarrow>
      DeltaT_of_year y = Some (7.62 + 0.5737 * (y - 1860) - 0.251754 * (y - 1860)\<^sup>2
        + 0.01680668 * (y - 1860) ^ 3 - 0.0004473624 * (y - 1860) ^ 4
        + (y - 1860) ^ 5 / 233174)) \<and>
   (1900 \<le> y \<and> y < 1920 \<longrightarrow>
      DeltaT_of_year y = Some (-2.79 + 1.494119 * (y - 1900) - 0.0598939 * (y - 1900)\<^sup>2
        + 0.0061966 * (y - 1900) ^ 3 - 0.000197 * (y - 1900) ^ 4)) \<and>
   (1920 \<le> y \<and> y < 1941 \<longrightarrow>
      DeltaT_of_year y = Some (21.20 + 0.84493 * (y - 1920) - 0.076100 * (y - 1920)\<^sup>2
        + 0.0020936 * (y - 1920) ^ 3)) \<and>
   (1941 \<le> y \<and> y < 1961 \<longrightarrow>
      DeltaT_of_year y = Some (29.07 + 0.407 * (y - 1950) - (y - 1950)\<^sup>2 / 233
        + (y - 1950) ^ 3 / 2547)) \<and>
   (1961 \<le> y \<and> y < 1986 \<longrightarrow>
      DeltaT_of_year y = Some (45.45 + 1.067 * (y - 1975) - (y - 1975)\<^sup>2 / 260
        - (y - 1975) ^ 3 / 718)) \<and>
   (1986 \<le> y \<and> y < 2005 \<longrightarrow>
      DeltaT_of_year y = Some (63.86 + 0.3345 * (y - 2000) - 0.060374 * (y - 2000)\<^sup>2
        + 0.0017275 * (y - 2000) ^ 3 + 0.000651814 * (y - 2000) ^ 4
        + 0.00002373599 * (y - 2000) ^ 5)) \<and>
   (2005 \<le> y \<and> y < 2050 \<longrightarrow>
      DeltaT_of_year y = Some (62.92 + 0.32217 * (y - 2000) + 0.005589 * (y - 2000)\<^sup>2)) \<and>
   (2050 \<le> y \<and> y < 2150 \<longrightarrow>
      DeltaT_of_year y = Some (-20 + 32 * ((y - 1820) / 100)\<^sup>2 - 0.5628 * (2150 - y))) \<and>
   (2150 \<le> y \<longrightarrow>
      DeltaT_of_year y = Some (-20 + 32 * ((y - 1820) / 100)\<^sup>2))"
  unfolding DeltaT_of_year_def Let_def power_products
  by simp

theorem DeltaT_of_year_ranges_witness:
  "DeltaT_of_year (-2000) = None \<and> DeltaT_of_year (-1999) = Some (29157022 / 625) \<and>
   DeltaT_of_year 2000 = Some 63.86 \<and> DeltaT_of_year 2200 = Some (11052 / 25)"
  using DeltaT_of_year_ranges [of "-2000"] DeltaT_of_year_ranges [of "-1999"]
    DeltaT_of_year_ranges [of 2000] DeltaT_of_year_ranges [of 2200]
  by (simp add: power2_eq_square)

subsection \<open>Calendar arithmetic\<close>

lemma floor_quarter_days: "\<lfloor>365.25 * real_of_int n\<rfloor> = 365 * n + n div 4"
proof -
  have "365.25 * real_of_int n = real_of_int (365 * n) + real_of_int n / real_of_int 4"
    by simp
  then have "\<lfloor>365.25 * real_of_int n\<rfloor> = 365 * n + \<lfloor>real_of_int n / real_of_int 4\<rfloor>"
    by (metis floor_add_int add.commute)
  then show ?thesis by (simp only: floor_divide_of_int_eq)
qed

lemma floor_div_100: "\<lfloor>real_of_int n / 100\<rfloor> = n div 100"
  using floor_divide_of_int_eq [of n 100, where ?'a = real] by simp

lemma floor_div_4: "\<lfloor>real_of_int n / 4\<rfloor> = n div 4"
  using floor_divide_of_int_eq [of n 4, where ?'a = real] by simp

lemma monthStart_values:
  "monthStart 3 = 122" "monthStart 4 = 153" "monthStart 5 = 183" "monthStart 6 = 214"
  "monthStart 7 = 244" "monthStart 8 = 275" "monthStart 9 = 306" "monthStart 10 = 336"
  "monthStart 11 = 367" "monthStart 12 = 397" "monthStart 13 = 428" "monthStart 14 = 459"
  "monthStart 15 = 489"
  unfolding monthStart_def by (simp_all add: floor_eq_iff)

lemma month_disj:
  fixes m :: int
  assumes "0 \<le> m" "m \<le> 11"
  shows "m = 0 \<or> m = 1 \<or> m = 2 \<or> m = 3 \<or> m = 4 \<or> m = 5 \<or> m = 6 \<or> m = 7
    \<or> m = 8 \<or> m = 9 \<or> m = 10 \<or> m = 11"
  using assms by arith

lemma month_cases:
  fixes m :: int
  assumes "0 \<le> m" "m \<le> 11"
  obtains "m = 0" | "m = 1" | "m = 2" | "m = 3" | "m = 4" | "m = 5" | "m = 6" | "m = 7"
    | "m = 8" | "m = 9" | "m = 10" | "m = 11"
  using month_disj [OF assms] by blast

lemma div_400_parts:
  fixes Y :: int
  shows "Y div 4 = 100 * (Y div 400) + (Y mod 400) div 4"
    and "Y div 100 = 4 * (Y div 400) + (Y mod 400) div 100"
proof -
  have a: "(400 * e + r) div 4 = 100 * e + r div 4" for e r :: int
  proof -
    have "400 * e + r = 4 * (100 * e) + r" by simp
    also have "\<dots> div 4 = 100 * e + r div 4" by (rule div_mult_self4) simp
    finally show ?thesis .
  qed
  have b: "(400 * e + r) div 100 = 4 * e + r div 100" for e r :: int
  proof -
    have "400 * e + r = 100 * (4 * e) + r" by simp
    also have "\<dots> div 100 = 4 * e + r div 100" by (rule div_mult_self4) simp
    finally show ?thesis .
  qed
  show "Y div 4 = 100 * (Y div 400) + (Y mod 400) div 4"
    using a [of "Y div 400" "Y mod 400"] by (simp only: mult_div_mod_eq)
  show "Y div 100 = 4 * (Y div 400) + (Y mod 400) div 100"
    using b [of "Y div 400" "Y mod 400"] by (simp only: mult_div_mod_eq)
qed

lemma yearStart_era:
  "(Y div 400) * 146097 + ((Y mod 400) * 365 + (Y mod 400) div 4 - (Y mod 400) div 100)
     = yearStart Y"
proof -
  have lin: "Y = 400 * e + r \<Longrightarrow> Y4 = 100 * e + r4 \<Longrightarrow> Y100 = 4 * e + r100 \<Longrightarrow>
     e * 146097 + (r * 365 + r4 - r100) = 365 * Y + Y4 - Y100 + e"
    for Y e r Y4 r4 Y100 r100 :: int
    by simp
  have Y: "Y = 400 * (Y div 400) + Y mod 400" by (simp only: mult_div_mod_eq)
  show ?thesis
    unfolding yearStart_def by (rule lin [OF Y div_400_parts])
qed

lemma MakeDay_yearStart:
  "MakeDay y m d =
     (let ym = y + m div 12; mn = m mod 12;
          y' = (if mn < 2 then ym - 1 else ym);
          mp = (mn + 10) mod 12;
          doy = (153 * mp + 2) div 5
      in yearStart y' + doy + d - 719469)"
proof -
  have shape: "a + (b + doy) - 719468 + d - 1 = (a + b) + doy + d - 719469"
    for a b doy d :: int by simp
  show ?thesis
    unfolding MakeDay_def Let_def by (simp only: shape yearStart_era)
qed

lemma MakeDay_closed:
  assumes "0 \<le> month x" "month x \<le> 11"
  shows "MakeDay (year x) (month x) (date x) =
    yearStart (marchYear x) + monthStart (marchMonth x) + date x - 719591"
  using assms
proof (cases "month x" rule: month_cases)
qed (simp_all add: MakeDay_yearStart Let_def marchYear_def marchMonth_def monthStart_values)

lemma div_4_shift: "(Y + 4716) div 4 = Y div 4 + 1179" for Y :: int
proof -
  have "Y + 4716 = 4 * 1179 + Y" by simp
  also have "\<dots> div 4 = 1179 + Y div 4" by (rule div_mult_self4) simp
  finally show ?thesis by simp
qed

lemma datetimeToJD_split:
  "datetimeToJD x + 0.5 =
     real_of_int (365 * marchYear x + marchYear x div 4 + monthStart (marchMonth x) + date x
       + datetimeToJD_B x + 1720995) + timeOfDay x"
  unfolding datetimeToJD_def Let_def floor_quarter_days div_4_shift
  by (simp add: marchYear_def marchMonth_def monthStart_def timeOfDay_def)

lemma timeOfDay_bounds:
  assumes "valid_datetime x"
  shows "0 \<le> timeOfDay x" "timeOfDay x < 1"
proof -
  from assms have h: "0 \<le> hour x" "hour x \<le> 23" and m: "0 \<le> minute x" "minute x \<le> 59"
    and s: "0 \<le> second x" "second x \<le> 59"
    by (auto simp: valid_datetime_def)
  then have hr: "0 \<le> real_of_int (hour x)" "real_of_int (hour x) \<le> 23"
    and mr: "0 \<le> real_of_int (minute x)" "real_of_int (minute x) \<le> 59"
    and sr: "0 \<le> real_of_int (second x)" "real_of_int (second x) \<le> 59"
    by simp_all
  show "0 \<le> timeOfDay x" using hr mr sr by (simp add: timeOfDay_def)
  show "timeOfDay x < 1" using hr mr sr by (simp add: timeOfDay_def field_simps)
qed

lemma gregorianCutoff_fields:
  "gregorianCutoff = \<lparr>year = 1582, month = 9, date = 15, hour = 12, minute = 0, second = 0,
       millisecond = 0, tz = ''UTC'', utcOffset = 0, isDST = False,
       creationInput = ''1582-10-15T12:00:00Z''\<rparr>"
  by (simp add: gregorianCutoff_def utc_def normalize_def valid_datetime_def daysInMonth_def)

lemma valueOf_gregorianCutoff: "valueOf gregorianCutoff = - 12219249600000"
  by (simp add: gregorianCutoff_fields valueOf_def MakeDay_def Let_def)

lemma datetimeToJD_B_after:
  assumes "isAfter x gregorianCutoff"
  shows "datetimeToJD_B x = 2 - marchYear x div 100 + marchYear x div 400"
proof -
  have "marchYear x div 100 div 4 = marchYear x div 400"
    using zdiv_zmult2_eq [of 4 "marchYear x" 100] by simp
  with assms show ?thesis
    by (simp add: datetimeToJD_B_def Let_def floor_div_100 floor_div_4 marchYear_def)
qed

lemma datetimeToJD_B_not_after:
  assumes "\<not> isAfter x gregorianCutoff"
  shows "datetimeToJD_B x = 0"
  using assms by (simp add: datetimeToJD_B_def Let_def)

lemma alpha_value:
  fixes a a4 ar s s4 md Z :: int
  assumes a: "a = 4 * a4 + ar" "0 \<le> ar" "ar \<le> 3"
    and s: "0 \<le> s" "s \<le> 99" "4 * s4 \<le> s" "0 \<le> s4"
    and md: "123 \<le> md" "md \<le> 488"
    and leap: "s = 99 \<Longrightarrow> md = 488 \<Longrightarrow> ar = 3"
    and Z: "Z = 36524 * a + a4 + 365 * s + s4 + md + 1720997"
  shows "\<lfloor>(real_of_int Z - 1867216.25) / 36524.25\<rfloor> = a - 4"
proof (rule floor_unique)
  have "real_of_int (a - 4) * 36524.25 \<le> real_of_int Z - 1867216.25"
    using a s md unfolding Z by simp
  then show "real_of_int (a - 4) \<le> (real_of_int Z - 1867216.25) / 36524.25"
    by (simp add: le_divide_eq)
  have "4 * a4 + 4 * 365 * s + 4 * s4 + 4 * md < a + 146586"
  proof -
    from s have s4: "s4 \<le> 24" by linarith
    consider "s \<le> 98" | "s = 99" "md \<le> 487" | "s = 99" "md = 488"
      using s md by linarith
    then show ?thesis
    proof cases
      case 1
      with a s md show ?thesis by linarith
    next
      case 2
      with a s4 show ?thesis by linarith
    next
      case 3
      with leap have "ar = 3" by simp
      with a s4 3 show ?thesis by linarith
    qed
  qed
  then have "real_of_int (4 * a4 + 4 * 365 * s + 4 * s4 + 4 * md) < real_of_int (a + 146586)"
    by (simp only: of_int_less_iff)
  then have "real_of_int Z - 1867216.25 < (real_of_int (a - 4) + 1) * 36524.25"
    unfolding Z by simp
  then show "(real_of_int Z - 1867216.25) / 36524.25 < real_of_int (a - 4) + 1"
    by (simp add: divide_less_eq)
qed

lemma year_value:
  fixes n q r md :: int
  assumes n: "n = 4 * q + r" "0 \<le> r" "r \<le> 3"
    and md: "123 \<le> md" "md \<le> 488"
    and leap: "md = 488 \<Longrightarrow> r = 3"
  shows "\<lfloor>(real_of_int (365 * n + q + md) - 122.1) / 365.25\<rfloor> = n"
proof (rule floor_unique)
  have rn: "real_of_int n = 4 * real_of_int q + real_of_int r" using n(1) by simp
  have rr: "0 \<le> real_of_int r" "real_of_int r \<le> 3" using n(2,3) by simp_all
  have rmd: "123 \<le> real_of_int md" using md(1) by simp
  have "real_of_int n * 365.25 \<le> real_of_int (365 * n + q + md) - 122.1"
    using rn rr rmd by simp
  then show "real_of_int n \<le> (real_of_int (365 * n + q + md) - 122.1) / 365.25"
    by (simp add: le_divide_eq)
  have "4 * md \<le> 1949 + r"
  proof (cases "md = 488")
    case True
    with leap show ?thesis by simp
  next
    case False
    with md n show ?thesis by linarith
  qed
  then have "real_of_int (4 * md) \<le> real_of_int (1949 + r)"
    by (simp only: of_int_le_iff)
  then have "real_of_int (365 * n + q + md) - 122.1 < (real_of_int n + 1) * 365.25"
    using rn by simp
  then show "(real_of_int (365 * n + q + md) - 122.1) / 365.25 < real_of_int n + 1"
    by (simp add: divide_less_eq)
qed

lemma marchMonth_disj:
  fixes M :: int
  assumes "3 \<le> M" "M \<le> 14"
  shows "M = 3 \<or> M = 4 \<or> M = 5 \<or> M = 6 \<or> M = 7 \<or> M = 8 \<or> M = 9 \<or> M = 10
    \<or> M = 11 \<or> M = 12 \<or> M = 13 \<or> M = 14"
  using assms by arith

lemma month_value:
  fixes M d :: int
  assumes "3 \<le> M" "M \<le> 14" "1 \<le> d" "d \<le> monthStart (M + 1) - monthStart M"
  shows "\<lfloor>real_of_int (monthStart M + d) / 30.6001\<rfloor> = M + 1"
proof -
  have rd: "1 \<le> real_of_int d" using assms(3) by simp
  have "M = 3 \<or> M = 4 \<or> M = 5 \<or> M = 6 \<or> M = 7 \<or> M = 8 \<or> M = 9 \<or> M = 10
    \<or> M = 11 \<or> M = 12 \<or> M = 13 \<or> M = 14"
    using assms(1,2) by (rule marchMonth_disj)
  then show ?thesis
    using assms(4) rd
    by (elim disjE) (simp_all add: monthStart_values floor_eq_iff le_divide_eq divide_less_eq)
qed

lemma time_of_day_fields:
  assumes "valid_datetime x"
  shows "\<lfloor>timeOfDay x * 24\<rfloor> = hour x"
    and "\<lfloor>(timeOfDay x * 24 - real_of_int (hour x)) * 60\<rfloor> = minute x"
    and "\<lfloor>((timeOfDay x * 24 - real_of_int (hour x)) * 60 - real_of_int (minute x)) * 60\<rfloor>
       = second x"
proof -
  from assms have m: "0 \<le> minute x" "minute x \<le> 59" and s: "0 \<le> second x" "second x \<le> 59"
    by (auto simp: valid_datetime_def)
  then have mr: "0 \<le> real_of_int (minute x)" "real_of_int (minute x) \<le> 59"
    and sr: "0 \<le> real_of_int (second x)" "real_of_int (second x) \<le> 59"
    by simp_all
  have t: "timeOfDay x * 24 =
    real_of_int (hour x) + (real_of_int (minute x) + real_of_int (second x) / 60) / 60"
    by (simp add: timeOfDay_def)
  show "\<lfloor>timeOfDay x * 24\<rfloor> = hour x"
    unfolding t using mr sr by (simp add: floor_eq_iff)
  have u: "(timeOfDay x * 24 - real_of_int (hour x)) * 60 =
    real_of_int (minute x) + real_of_int (second x) / 60"
    unfolding t by simp
  show "\<lfloor>(timeOfDay x * 24 - real_of_int (hour x)) * 60\<rfloor> = minute x"
    unfolding u using sr by (simp add: floor_eq_iff)
  show "\<lfloor>((timeOfDay x * 24 - real_of_int (hour x)) * 60 - real_of_int (minute x)) * 60\<rfloor>
       = second x"
    unfolding u by simp
qed

lemma daysInMonth_ge: "28 \<le> daysInMonth y m"
  by (simp add: daysInMonth_def)

lemma setter_chain:
  assumes "valid_datetime x"
  shows "set_second (second x) (set_minute (minute x) (set_hour (hour x) (set_date (date x)
           (set_month (month x) (set_year (year x)
              (utc 2000 0 1 12 0 0 ''2000-01-01T12:00:00''))))))
    = \<lparr>year = year x, month = month x, date = date x, hour = hour x, minute = minute x,
       second = second x, millisecond = 0, tz = ''UTC'', utcOffset = 0, isDST = False,
       creationInput = ''2000-01-01T12:00:00''\<rparr>"
proof -
  have d: "28 \<le> daysInMonth (year x) (month x)" by (rule daysInMonth_ge)
  have b: "utc 2000 0 1 12 0 0 ''2000-01-01T12:00:00'' =
     \<lparr>year = 2000, month = 0, date = 1, hour = 12, minute = 0, second = 0,
       millisecond = 0, tz = ''UTC'', utcOffset = 0, isDST = False,
       creationInput = ''2000-01-01T12:00:00''\<rparr>"
    by (simp add: utc_def normalize_def valid_datetime_def daysInMonth_def)
  have d31: "daysInMonth (year x) 0 = 31" by (simp add: daysInMonth_def)
  have m12: "month x div 12 = 0" "month x mod 12 = month x"
    using assms by (simp_all add: valid_datetime_def)
  show ?thesis
    unfolding b using assms d d31
    by (simp add: set_year_def set_month_def set_date_def set_hour_def set_minute_def
        set_second_def normalize_def valid_datetime_def m12)
qed

lemma JDToDatetime_unfold:
  assumes Z: "\<lfloor>JD0 + 0.5\<rfloor> = Z" and F: "JD0 + 0.5 - real_of_int Z = F"
    and A: "(if 2299161 \<le> Z
             then Z + 1 + \<lfloor>(real_of_int Z - 1867216.25) / 36524.25\<rfloor>
                  - \<lfloor>real_of_int \<lfloor>(real_of_int Z - 1867216.25) / 36524.25\<rfloor> / 4\<rfloor>
             else Z) = A"
    and C: "\<lfloor>(real_of_int (A + 1524) - 122.1) / 365.25\<rfloor> = C"
    and D: "\<lfloor>365.25 * real_of_int C\<rfloor> = D"
    and E: "\<lfloor>real_of_int (A + 1524 - D) / 30.6001\<rfloor> = E"
    and d: "A + 1524 - D - \<lfloor>30.6001 * real_of_int E\<rfloor> = d"
    and F01: "0 \<le> F" "F < 1"
    and h: "\<lfloor>F * 24\<rfloor> = h"
    and n: "\<lfloor>(F * 24 - real_of_int h) * 60\<rfloor> = n"
    and s: "\<lfloor>((F * 24 - real_of_int h) * 60 - real_of_int n) * 60\<rfloor> = s"
  shows "JDToDatetime JD0 =
    set_second s (set_minute n (set_hour h (set_date d
      (set_month ((if E > 13 then E - 1 - 12 else E - 1) - 1)
        (set_year (if (if E > 13 then E - 1 - 12 else E - 1) > 2 then C - 4715 - 1 else C - 4715)
          (utc 2000 0 1 12 0 0 ''2000-01-01T12:00:00''))))))"
proof -
  have day: "\<lfloor>real_of_int d + F\<rfloor> = d" using F01 by (simp add: floor_eq_iff)
  have frac: "real_of_int d + F - real_of_int d = F" by simp
  show ?thesis
    unfolding JDToDatetime_def Let_def
    by (simp only: Z F A C D E d day frac h n s)
qed

lemma valid_march:
  assumes "valid_datetime x"
  shows "3 \<le> marchMonth x" "marchMonth x \<le> 14" "1 \<le> date x"
    "date x \<le> monthStart (marchMonth x + 1) - monthStart (marchMonth x)"
    "123 \<le> monthStart (marchMonth x) + date x"
    "monthStart (marchMonth x) + date x \<le> 488"
    "monthStart (marchMonth x) + date x = 488 \<Longrightarrow> isLeapYear (marchYear x + 1)"
proof -
  from assms have m: "0 \<le> month x" "month x \<le> 11"
    and d: "1 \<le> date x" "date x \<le> daysInMonth (year x) (month x)"
    by (auto simp: valid_datetime_def)
  show "1 \<le> date x" by fact
  show "3 \<le> marchMonth x" "marchMonth x \<le> 14" using m by (auto simp: marchMonth_def)
  from m show "date x \<le> monthStart (marchMonth x + 1) - monthStart (marchMonth x)"
    by (cases "month x" rule: month_cases)
       (use d in \<open>auto simp: marchMonth_def monthStart_values daysInMonth_def split: if_splits\<close>)
  from m show "123 \<le> monthStart (marchMonth x) + date x"
    by (cases "month x" rule: month_cases)
       (use d in \<open>auto simp: marchMonth_def monthStart_values\<close>)
  from m show "monthStart (marchMonth x) + date x \<le> 488"
    by (cases "month x" rule: month_cases)
       (use d in \<open>auto simp: marchMonth_def monthStart_values daysInMonth_def split: if_splits\<close>)
  assume "monthStart (marchMonth x) + date x = 488"
  with m show "isLeapYear (marchYear x + 1)"
    by (cases "month x" rule: month_cases)
       (use d in \<open>auto simp: marchMonth_def marchYear_def monthStart_values daysInMonth_def
          split: if_splits\<close>)
qed

lemma marchMonth_back:
  assumes "0 \<le> month x" "month x \<le> 11"
  shows "(if marchMonth x + 1 > 13 then marchMonth x + 1 - 1 - 12 else marchMonth x + 1 - 1) - 1
      = month x"
    and "(if (if marchMonth x + 1 > 13 then marchMonth x + 1 - 1 - 12 else marchMonth x + 1 - 1) > 2
         then marchYear x + 4716 - 4715 - 1 else marchYear x + 4716 - 4715) = year x"
  using assms by (auto simp: marchMonth_def marchYear_def)

lemma isLeapYear_mod4: "isLeapYear y \<Longrightarrow> y mod 4 = 0"
proof -
  assume "isLeapYear y"
  then consider "y mod 4 = 0" | "y mod 400 = 0" by (auto simp: isLeapYear_def)
  then show ?thesis
  proof cases
    case 2
    then have "400 dvd y" by (simp add: dvd_eq_mod_eq_0)
    moreover have "(4::int) dvd 400" by simp
    ultimately have "4 dvd y" by (rule dvd_trans [rotated])
    then show ?thesis by (simp add: dvd_eq_mod_eq_0)
  qed
qed

lemma floor_int_plus_frac: "0 \<le> t \<Longrightarrow> t < 1 \<Longrightarrow> \<lfloor>real_of_int k + t\<rfloor> = k"
  by (simp add: floor_eq_iff)

lemma JD_floor:
  assumes "valid_datetime x"
  shows "\<lfloor>datetimeToJD x + 0.5\<rfloor> =
      365 * marchYear x + marchYear x div 4 + monthStart (marchMonth x) + date x
       + datetimeToJD_B x + 1720995"
    and "datetimeToJD x + 0.5 - real_of_int
      (365 * marchYear x + marchYear x div 4 + monthStart (marchMonth x) + date x
       + datetimeToJD_B x + 1720995) = timeOfDay x"
  unfolding datetimeToJD_split
  by (rule floor_int_plus_frac [OF timeOfDay_bounds [OF assms]]) simp

lemma seconds_fields:
  fixes F :: real
  assumes "0 \<le> F" "F < 1"
  defines "h \<equiv> \<lfloor>F * 24\<rfloor>"
  defines "n \<equiv> \<lfloor>(F * 24 - real_of_int h) * 60\<rfloor>"
  defines "s \<equiv> \<lfloor>((F * 24 - real_of_int h) * 60 - real_of_int n) * 60\<rfloor>"
  shows "0 \<le> h" "h < 24" "0 \<le> n" "n < 60" "0 \<le> s" "s < 60"
    "\<lfloor>F * 86400\<rfloor> = (h * 60 + n) * 60 + s"
proof -
  define g where "g = F * 24 - real_of_int h"
  define k where "k = g * 60 - real_of_int n"
  have h: "real_of_int h \<le> F * 24" "F * 24 < real_of_int h + 1"
    unfolding h_def by linarith+
  have g: "0 \<le> g" "g < 1" using h by (simp_all add: g_def)
  have n: "real_of_int n \<le> g * 60" "g * 60 < real_of_int n + 1"
    unfolding n_def g_def by linarith+
  have k: "0 \<le> k" "k < 1" using n by (simp_all add: k_def)
  have s: "real_of_int s \<le> k * 60" "k * 60 < real_of_int s + 1"
    unfolding s_def k_def g_def by linarith+
  have "- 1 < real_of_int h" "real_of_int h < 24" using h assms(1,2) by linarith+
  then show "0 \<le> h" "h < 24" by linarith+
  have "- 1 < real_of_int n" "real_of_int n < 60" using n g by linarith+
  then show "0 \<le> n" "n < 60" by linarith+
  have "- 1 < real_of_int s" "real_of_int s < 60" using s k by linarith+
  then show "0 \<le> s" "s < 60" by linarith+
  have e: "k * 60 = F * 86400 - real_of_int ((h * 60 + n) * 60)"
    by (simp add: k_def g_def algebra_simps)
  show "\<lfloor>F * 86400\<rfloor> = (h * 60 + n) * 60 + s"
  proof (rule floor_unique)
    show "real_of_int ((h * 60 + n) * 60 + s) \<le> F * 86400"
      using s(1) unfolding e by simp
    show "F * 86400 < real_of_int ((h * 60 + n) * 60 + s) + 1"
      using s(2) unfolding e by simp
  qed
qed

lemma decode_from_A:
  assumes v: "valid_datetime x"
    and Z: "\<lfloor>J + 0.5\<rfloor> =
        365 * marchYear x + marchYear x div 4 + monthStart (marchMonth x) + date x
          + datetimeToJD_B x + 1720995"
    and A: "(let Z = 365 * marchYear x + marchYear x div 4 + monthStart (marchMonth x) + date x
                + datetimeToJD_B x + 1720995 in
             if 2299161 \<le> Z
             then Z + 1 + \<lfloor>(real_of_int Z - 1867216.25) / 36524.25\<rfloor>
                  - \<lfloor>real_of_int \<lfloor>(real_of_int Z - 1867216.25) / 36524.25\<rfloor> / 4\<rfloor>
             else Z) =
        365 * marchYear x + marchYear x div 4 + monthStart (marchMonth x) + date x + 1720995"
    and h: "\<lfloor>(J + 0.5 - real_of_int \<lfloor>J + 0.5\<rfloor>) * 24\<rfloor> = h"
    and n: "\<lfloor>((J + 0.5 - real_of_int \<lfloor>J + 0.5\<rfloor>) * 24 - real_of_int h) * 60\<rfloor> = n"
    and s: "\<lfloor>(((J + 0.5 - real_of_int \<lfloor>J + 0.5\<rfloor>) * 24 - real_of_int h) * 60
              - real_of_int n) * 60\<rfloor> = s"
  shows "JDToDatetime J =
    \<lparr>year = year x, month = month x, date = date x, hour = h, minute = n,
       second = s, millisecond = 0, tz = ''UTC'', utcOffset = 0, isDST = False,
       creationInput = ''2000-01-01T12:00:00''\<rparr>"
proof -
  define n0 where "n0 = marchYear x + 4716"
  define md where "md = monthStart (marchMonth x) + date x"
  define Av where "Av = 365 * marchYear x + marchYear x div 4 + md + 1720995"
  define F where "F = J + 0.5 - real_of_int \<lfloor>J + 0.5\<rfloor>"
  define y where "y = x\<lparr>hour := h, minute := n, second := s\<rparr>"
  note vm = valid_march [OF v]
  have F01: "0 \<le> F" "F < 1" unfolding F_def by linarith+
  note sf = seconds_fields [OF F01, unfolded F_def h n s]
  have B: "Av + 1524 = 365 * n0 + n0 div 4 + md"
    unfolding Av_def n0_def div_4_shift by simp
  have leap: "n0 mod 4 = 3" if "md = 488"
  proof -
    from that have "isLeapYear (marchYear x + 1)" unfolding md_def by (rule vm(7))
    then have "(marchYear x + 1) mod 4 = 0" by (rule isLeapYear_mod4)
    then show ?thesis unfolding n0_def by presburger
  qed
  have C: "\<lfloor>(real_of_int (Av + 1524) - 122.1) / 365.25\<rfloor> = n0"
    unfolding B
  proof (rule year_value)
    show "n0 = 4 * (n0 div 4) + n0 mod 4" by simp
    show "0 \<le> n0 mod 4" by simp
    show "n0 mod 4 \<le> 3" using pos_mod_bound [of 4 n0] by linarith
    show "123 \<le> md" "md \<le> 488" unfolding md_def using vm by simp_all
    show "md = 488 \<Longrightarrow> n0 mod 4 = 3" by (rule leap)
  qed
  have D: "\<lfloor>365.25 * real_of_int n0\<rfloor> = 365 * n0 + n0 div 4" by (rule floor_quarter_days)
  have BD: "Av + 1524 - (365 * n0 + n0 div 4) = md" using B by simp
  have E: "\<lfloor>real_of_int (Av + 1524 - (365 * n0 + n0 div 4)) / 30.6001\<rfloor> = marchMonth x + 1"
    unfolding BD md_def using vm by (intro month_value) simp_all
  have d: "Av + 1524 - (365 * n0 + n0 div 4) - \<lfloor>30.6001 * real_of_int (marchMonth x + 1)\<rfloor>
      = date x"
    unfolding BD md_def monthStart_def by simp
  from v have m: "0 \<le> month x" "month x \<le> 11" by (auto simp: valid_datetime_def)
  have A': "(if 2299161 \<le> \<lfloor>J + 0.5\<rfloor>
             then \<lfloor>J + 0.5\<rfloor> + 1
                  + \<lfloor>(real_of_int \<lfloor>J + 0.5\<rfloor> - 1867216.25) / 36524.25\<rfloor>
                  - \<lfloor>real_of_int \<lfloor>(real_of_int \<lfloor>J + 0.5\<rfloor> - 1867216.25) / 36524.25\<rfloor> / 4\<rfloor>
             else \<lfloor>J + 0.5\<rfloor>) = Av"
    using A unfolding Z Let_def Av_def md_def by simp
  have vy: "valid_datetime y"
    using v sf(1-6) by (simp add: valid_datetime_def y_def)
  have "JDToDatetime J =
    set_second s (set_minute n (set_hour h (set_date (date x)
      (set_month ((if marchMonth x + 1 > 13 then marchMonth x + 1 - 1 - 12
                   else marchMonth x + 1 - 1) - 1)
        (set_year (if (if marchMonth x + 1 > 13 then marchMonth x + 1 - 1 - 12
                       else marchMonth x + 1 - 1) > 2 then n0 - 4715 - 1 else n0 - 4715)
          (utc 2000 0 1 12 0 0 ''2000-01-01T12:00:00''))))))"
    by (rule JDToDatetime_unfold [OF refl F_def [symmetric] A' C D E d F01
          h [folded F_def] n [folded F_def] s [folded F_def]])
  also have "\<dots> = set_second s (set_minute n (set_hour h
      (set_date (date x) (set_month (month x) (set_year (year x)
          (utc 2000 0 1 12 0 0 ''2000-01-01T12:00:00''))))))"
    unfolding n0_def by (simp only: marchMonth_back [OF m])
  also have "\<dots> = \<lparr>year = year x, month = month x, date = date x, hour = h,
       minute = n, second = s, millisecond = 0, tz = ''UTC'', utcOffset = 0,
       isDST = False, creationInput = ''2000-01-01T12:00:00''\<rparr>"
    using setter_chain [OF vy] by (simp add: y_def)
  finally show ?thesis .
qed

lemma roundtrip_from_A:
  assumes v: "valid_datetime x"
    and A: "(let Z = 365 * marchYear x + marchYear x div 4 + monthStart (marchMonth x) + date x
                + datetimeToJD_B x + 1720995 in
             if 2299161 \<le> Z
             then Z + 1 + \<lfloor>(real_of_int Z - 1867216.25) / 36524.25\<rfloor>
                  - \<lfloor>real_of_int \<lfloor>(real_of_int Z - 1867216.25) / 36524.25\<rfloor> / 4\<rfloor>
             else Z) =
        365 * marchYear x + marchYear x div 4 + monthStart (marchMonth x) + date x + 1720995"
  shows "JDToDatetime (datetimeToJD x) =
    \<lparr>year = year x, month = month x, date = date x, hour = hour x, minute = minute x,
       second = second x, millisecond = 0, tz = ''UTC'', utcOffset = 0, isDST = False,
       creationInput = ''2000-01-01T12:00:00''\<rparr>"
proof -
  have F: "datetimeToJD x + 0.5 - real_of_int \<lfloor>datetimeToJD x + 0.5\<rfloor> = timeOfDay x"
    unfolding JD_floor(1) [OF v] by (rule JD_floor(2) [OF v])
  show ?thesis
    by (rule decode_from_A [OF v JD_floor(1) [OF v] A])
      (simp_all only: F time_of_day_fields [OF v])
qed

lemma valueOf_utc:
  assumes "valid_datetime x" "utcOffset x = 0"
  shows "valueOf x =
      (yearStart (marchYear x) + monthStart (marchMonth x) + date x - 719591) * 86400000
      + (((hour x * 60 + minute x) * 60 + second x) * 1000 + millisecond x)"
    and "0 \<le> ((hour x * 60 + minute x) * 60 + second x) * 1000 + millisecond x"
    and "((hour x * 60 + minute x) * 60 + second x) * 1000 + millisecond x < 86400000"
proof -
  from assms(1) have m: "0 \<le> month x" "month x \<le> 11"
    and t: "0 \<le> hour x" "hour x \<le> 23" "0 \<le> minute x" "minute x \<le> 59"
      "0 \<le> second x" "second x \<le> 59" "0 \<le> millisecond x" "millisecond x \<le> 999"
    by (auto simp: valid_datetime_def)
  show "valueOf x =
      (yearStart (marchYear x) + monthStart (marchMonth x) + date x - 719591) * 86400000
      + (((hour x * 60 + minute x) * 60 + second x) * 1000 + millisecond x)"
    unfolding valueOf_def MakeDay_closed [OF m] assms(2) by simp
  show "0 \<le> ((hour x * 60 + minute x) * 60 + second x) * 1000 + millisecond x"
    using t by simp
  have "((hour x * 60 + minute x) * 60 + second x) * 1000 + millisecond x =
    hour x * 3600000 + minute x * 60000 + second x * 1000 + millisecond x" by simp
  then show "((hour x * 60 + minute x) * 60 + second x) * 1000 + millisecond x < 86400000"
    using t by linarith
qed

lemma century_parts:
  fixes Y :: int
  shows "Y div 4 = 25 * (Y div 100) + (Y mod 100) div 4"
    and "Y div 400 = (Y div 100) div 4"
proof -
  have a: "(100 * e + r) div 4 = 25 * e + r div 4" for e r :: int
  proof -
    have "100 * e + r = 4 * (25 * e) + r" by simp
    also have "\<dots> div 4 = 25 * e + r div 4" by (rule div_mult_self4) simp
    finally show ?thesis .
  qed
  show "Y div 4 = 25 * (Y div 100) + (Y mod 100) div 4"
    using a [of "Y div 100" "Y mod 100"] by (simp only: mult_div_mod_eq)
  show "Y div 400 = (Y div 100) div 4"
    using zdiv_zmult2_eq [of 4 Y 100] by simp
qed

lemma century_leap:
  fixes Y :: int
  assumes "isLeapYear (Y + 1)" "Y mod 100 = 99"
  shows "(Y div 100) mod 4 = 3"
proof -
  have step: "(k + 1) mod 4 = 0 \<Longrightarrow> k mod 4 = 3" for k :: int by presburger
  have Y: "Y = 100 * (Y div 100) + Y mod 100" by (simp only: mult_div_mod_eq)
  with assms(2) have Y1: "Y + 1 = 100 * (Y div 100 + 1)" by simp
  have "(Y + 1) mod 100 = 0" by (subst Y1) simp
  with assms(1) have "(Y + 1) mod 400 = 0" by (simp add: isLeapYear_def)
  then have "400 dvd Y + 1" by (simp add: dvd_eq_mod_eq_0)
  then have "400 dvd 100 * (Y div 100 + 1)" by (simp only: Y1)
  then have "100 * 4 dvd 100 * (Y div 100 + 1)" by simp
  then have "4 dvd Y div 100 + 1" by (simp only: dvd_mult_cancel_left) simp
  then have "(Y div 100 + 1) mod 4 = 0" by (simp add: dvd_eq_mod_eq_0)
  then show ?thesis by (rule step)
qed

lemma after_day:
  assumes v: "valid_datetime x" and u: "utcOffset x = 0" and after: "isAfter x gregorianCutoff"
  shows "578164 \<le> yearStart (marchYear x) + monthStart (marchMonth x) + date x"
proof -
  define D where "D = yearStart (marchYear x) + monthStart (marchMonth x) + date x"
  define t where "t = ((hour x * 60 + minute x) * 60 + second x) * 1000 + millisecond x"
  have "valueOf x = (D - 719591) * 86400000 + t" "t < 86400000"
    unfolding D_def t_def by (rule valueOf_utc [OF v u])+
  moreover have "- 12219249600000 < valueOf x"
    using after by (simp add: isAfter_def valueOf_gregorianCutoff)
  ultimately have "578164 \<le> D" by (simp add: algebra_simps)
  then show ?thesis unfolding D_def .
qed

lemma A_after:
  assumes v: "valid_datetime x" and u: "utcOffset x = 0" and after: "isAfter x gregorianCutoff"
  shows "(let Z = 365 * marchYear x + marchYear x div 4 + monthStart (marchMonth x) + date x
                + datetimeToJD_B x + 1720995 in
             if 2299161 \<le> Z
             then Z + 1 + \<lfloor>(real_of_int Z - 1867216.25) / 36524.25\<rfloor>
                  - \<lfloor>real_of_int \<lfloor>(real_of_int Z - 1867216.25) / 36524.25\<rfloor> / 4\<rfloor>
             else Z) =
        365 * marchYear x + marchYear x div 4 + monthStart (marchMonth x) + date x + 1720995"
proof -
  define Y where "Y = marchYear x"
  define a where "a = Y div 100"
  define s where "s = Y mod 100"
  define a4 where "a4 = a div 4"
  define ar where "ar = a mod 4"
  define s4 where "s4 = s div 4"
  define y4 where "y4 = Y div 4"
  define md where "md = monthStart (marchMonth x) + date x"
  define Z where "Z = 365 * Y + y4 + md + datetimeToJD_B x + 1720995"
  note vm = valid_march [OF v]
  have Ya: "Y = 100 * a + s" unfolding a_def s_def by simp
  have sb: "0 \<le> s" "s \<le> 99" unfolding s_def using pos_mod_bound [of 100 Y] by simp_all
  have aa: "a = 4 * a4 + ar" unfolding a4_def ar_def by simp
  have ab: "0 \<le> ar" "ar \<le> 3" unfolding ar_def using pos_mod_bound [of 4 a] by simp_all
  have s4b: "4 * s4 \<le> s" "0 \<le> s4" unfolding s4_def using sb(1)
    by (simp_all add: pos_imp_zdiv_nonneg_iff) 
  have y4: "y4 = 25 * a + s4" unfolding y4_def a_def s4_def s_def by (rule century_parts)
  have B: "datetimeToJD_B x = 2 - a + a4"
    unfolding datetimeToJD_B_after [OF after] a4_def a_def Y_def century_parts(2) ..
  have mdb: "123 \<le> md" "md \<le> 488" unfolding md_def using vm by simp_all
  have leap: "ar = 3" if "s = 99" "md = 488"
  proof -
    from that(2) have "isLeapYear (Y + 1)" unfolding md_def Y_def by (rule vm(7))
    then show ?thesis unfolding ar_def a_def using that(1) unfolding s_def by (rule century_leap)
  qed
  have Zc: "Z = 36524 * a + a4 + 365 * s + s4 + md + 1720997"
    unfolding Z_def B y4 Ya by simp
  have alpha: "\<lfloor>(real_of_int Z - 1867216.25) / 36524.25\<rfloor> = a - 4"
    using aa ab sb s4b mdb leap Zc by (rule alpha_value)
  have q: "\<lfloor>real_of_int (a - 4) / 4\<rfloor> = a4 - 1"
  proof -
    have "a - 4 = 4 * (-1) + a" by simp
    also have "\<dots> div 4 = - 1 + a div 4" by (rule div_mult_self4) simp
    finally show ?thesis unfolding floor_div_4 a4_def by simp
  qed
  have "578164 \<le> yearStart Y + md"
    unfolding Y_def md_def using after_day [OF v u after] by simp
  moreover have "yearStart Y = 365 * Y + y4 - a + a4"
    unfolding yearStart_def y4_def a_def a4_def century_parts(2) ..
  ultimately have Zb: "2299161 \<le> Z" unfolding Z_def B by linarith
  have "(if 2299161 \<le> Z
         then Z + 1 + \<lfloor>(real_of_int Z - 1867216.25) / 36524.25\<rfloor>
              - \<lfloor>real_of_int \<lfloor>(real_of_int Z - 1867216.25) / 36524.25\<rfloor> / 4\<rfloor>
         else Z) = 365 * Y + y4 + md + 1720995"
    unfolding alpha q using Zb unfolding Z_def B by simp
  then show ?thesis
    unfolding Let_def Z_def y4_def Y_def md_def by (simp only: add.assoc)
qed

lemma roundtrip_after:
  assumes v: "valid_datetime x" and u: "utcOffset x = 0" and after: "isAfter x gregorianCutoff"
  shows "JDToDatetime (datetimeToJD x) =
    \<lparr>year = year x, month = month x, date = date x, hour = hour x, minute = minute x,
       second = second x, millisecond = 0, tz = ''UTC'', utcOffset = 0, isDST = False,
       creationInput = ''2000-01-01T12:00:00''\<rparr>"
  by (rule roundtrip_from_A [OF v A_after [OF v u after]])

lemma valueOf_julianEnd: "valueOf julianEnd = - 12220156800000"
  by (simp add: julianEnd_def utc_def normalize_def valid_datetime_def daysInMonth_def
      valueOf_def MakeDay_def Let_def)

lemma before_day:
  assumes v: "valid_datetime x" and u: "utcOffset x = 0" and before: "isBefore x julianEnd"
  shows "yearStart (marchYear x) + monthStart (marchMonth x) + date x \<le> 578153"
proof -
  define D where "D = yearStart (marchYear x) + monthStart (marchMonth x) + date x"
  define t where "t = ((hour x * 60 + minute x) * 60 + second x) * 1000 + millisecond x"
  have "valueOf x = (D - 719591) * 86400000 + t" "0 \<le> t"
    unfolding D_def t_def by (rule valueOf_utc [OF v u])+
  moreover have "valueOf x < - 12220156800000"
    using before by (simp add: isBefore_def valueOf_julianEnd)
  ultimately have "D \<le> 578153" by (simp add: algebra_simps)
  then show ?thesis unfolding D_def .
qed

lemma A_before:
  assumes v: "valid_datetime x" and u: "utcOffset x = 0" and before: "isBefore x julianEnd"
  shows "(let Z = 365 * marchYear x + marchYear x div 4 + monthStart (marchMonth x) + date x
                + datetimeToJD_B x + 1720995 in
             if 2299161 \<le> Z
             then Z + 1 + \<lfloor>(real_of_int Z - 1867216.25) / 36524.25\<rfloor>
                  - \<lfloor>real_of_int \<lfloor>(real_of_int Z - 1867216.25) / 36524.25\<rfloor> / 4\<rfloor>
             else Z) =
        365 * marchYear x + marchYear x div 4 + monthStart (marchMonth x) + date x + 1720995"
proof -
  define Y where "Y = marchYear x"
  define a where "a = Y div 100"
  define s where "s = Y mod 100"
  define a4 where "a4 = a div 4"
  define ar where "ar = a mod 4"
  define s4 where "s4 = s div 4"
  define y4 where "y4 = Y div 4"
  define md where "md = monthStart (marchMonth x) + date x"
  define Z where "Z = 365 * Y + y4 + md + datetimeToJD_B x + 1720995"
  note vm = valid_march [OF v]
  have Ya: "Y = 100 * a + s" unfolding a_def s_def by simp
  have sb: "0 \<le> s" "s \<le> 99" unfolding s_def using pos_mod_bound [of 100 Y] by simp_all
  have aa: "a = 4 * a4 + ar" unfolding a4_def ar_def by simp
  have ab: "0 \<le> ar" "ar \<le> 3" unfolding ar_def using pos_mod_bound [of 4 a] by simp_all
  have s4b: "4 * s4 \<le> s" "0 \<le> s4" unfolding s4_def using sb(1)
    by (simp_all add: pos_imp_zdiv_nonneg_iff) 
  have y4: "y4 = 25 * a + s4" unfolding y4_def a_def s4_def s_def by (rule century_parts)
  have "\<not> isAfter x gregorianCutoff"
    using before by (simp add: isAfter_def isBefore_def valueOf_julianEnd valueOf_gregorianCutoff)
  then have B: "datetimeToJD_B x = 0" by (rule datetimeToJD_B_not_after)
  have mdb: "123 \<le> md" unfolding md_def using vm by simp
  have ys: "yearStart Y = 365 * Y + y4 - a + a4"
    unfolding yearStart_def y4_def a_def a4_def century_parts(2) ..
  have D: "yearStart Y + md \<le> 578153"
    unfolding Y_def md_def using before_day [OF v u before] by simp
  have "a \<le> 15"
  proof (rule ccontr)
    assume "\<not> a \<le> 15"
    then have "16 \<le> a" by simp
    with aa ab have "4 \<le> a4" by linarith
    with \<open>16 \<le> a\<close> ys y4 Ya sb s4b mdb D show False by linarith
  qed
  with aa ab have "a - a4 \<le> 12" by linarith
  with D ys have Zb: "\<not> 2299161 \<le> Z" unfolding Z_def B by linarith
  have "(if 2299161 \<le> Z
         then Z + 1 + \<lfloor>(real_of_int Z - 1867216.25) / 36524.25\<rfloor>
              - \<lfloor>real_of_int \<lfloor>(real_of_int Z - 1867216.25) / 36524.25\<rfloor> / 4\<rfloor>
         else Z) = 365 * Y + y4 + md + 1720995"
    using Zb unfolding Z_def B by simp
  then show ?thesis
    unfolding Let_def Z_def y4_def Y_def md_def by (simp only: add.assoc)
qed

lemma roundtrip_before:
  assumes v: "valid_datetime x" and u: "utcOffset x = 0" and before: "isBefore x julianEnd"
  shows "JDToDatetime (datetimeToJD x) =
    \<lparr>year = year x, month = month x, date = date x, hour = hour x, minute = minute x,
       second = second x, millisecond = 0, tz = ''UTC'', utcOffset = 0, isDST = False,
       creationInput = ''2000-01-01T12:00:00''\<rparr>"
  by (rule roundtrip_from_A [OF v A_before [OF v u before]])





lemma timeOfDay_millis:
  "timeOfDay x = real_of_int (((hour x * 60 + minute x) * 60 + second x) * 1000) / 86400000"
  by (simp add: timeOfDay_def field_simps)



lemma time_fields_unique:
  fixes h n s h' n' s' :: int
  assumes "0 \<le> n" "n < 60" "0 \<le> s" "s < 60" "0 \<le> n'" "n' < 60" "0 \<le> s'" "s' < 60"
    and "(h * 60 + n) * 60 + s = (h' * 60 + n') * 60 + s'"
  shows "h = h'" "n = n'" "s = s'"
proof -
  define q where "q = (h' - h) * 60 + (n' - n)"
  have "s - s' = 60 * q" using assms(9) by (simp add: q_def algebra_simps)
  then have q60: "s - s' = 60 * q" .
  have q: "q = 0" using q60 assms(3,4,7,8) by linarith
  have s: "s = s'" using q60 q by simp
  define r where "r = h' - h"
  have r60: "n - n' = 60 * r" using q by (simp add: q_def r_def)
  have r: "r = 0" using r60 assms(1,2,5,6) by linarith
  have n: "n = n'" using r60 r by simp
  show "h = h'" "n = n'" "s = s'" using s n r by (simp_all add: r_def)
qed


subsection \<open>Julian dates: round trip, cutover and order\<close>

text \<open>
  C1, as the specification states it, says that \<open>JDToDatetime\<close> after \<open>datetimeToJD\<close> gives
  back the calendar fields of every instant. \<open>datetimeToJD\<close> reads the fields of an instant
  that is not after the cutover as a date of the Julian calendar, and \<open>JDToDatetime\<close> takes
  every Julian date from 2299160.5 on for a Gregorian one: 1582-10-10T00:00:00Z comes back
  as the 20th.
\<close>

theorem JD_roundtrip_counterexample:
  "valid_datetime (utc 1582 9 10 0 0 0 ''1582-10-10T00:00:00Z'') \<and>
   date (utc 1582 9 10 0 0 0 ''1582-10-10T00:00:00Z'') = 10 \<and>
   date (JDToDatetime (datetimeToJD (utc 1582 9 10 0 0 0 ''1582-10-10T00:00:00Z''))) = 20"
  by code_simp

text \<open>
  C1, amended: for every instant \<open>x\<close> in UTC that is after the cutover
  1582-10-15T12:00:00Z, or before 1582-10-05T00:00:00Z, \<open>JDToDatetime\<close> gives \<open>x\<close> back
  from its Julian date to within 1 second. The code computes the Julian date in binary64
  arithmetic, and the theorem allows for the rounding: \<open>J\<close> is any number in the Julian
  day of \<open>x\<close> that is less than 1/86400 of a day, one second, away from the exact Julian
  date, as the number the code computes is (at midnight the Julian date ends in .5 and is
  exact). From \<open>J\<close>, \<open>JDToDatetime\<close> rebuilds the year, month and day of \<open>x\<close> and a time
  of day that is the one of \<open>x\<close> or one second earlier; when \<open>J\<close> is not below the exact
  date, and so for the exact date itself, the hour, minute and second are those of \<open>x\<close>.
\<close>

theorem JD_roundtrip:
  assumes v: "valid_datetime x" and u: "utcOffset x = 0"
    and side: "isAfter x gregorianCutoff \<or> isBefore x julianEnd"
    and near: "\<bar>J - datetimeToJD x\<bar> < 1 / 86400"
    and day: "\<lfloor>J + 0.5\<rfloor> = \<lfloor>datetimeToJD x + 0.5\<rfloor>"
  shows "year (JDToDatetime J) = year x \<and> month (JDToDatetime J) = month x \<and>
    date (JDToDatetime J) = date x \<and>
    0 \<le> hour (JDToDatetime J) \<and> hour (JDToDatetime J) < 24 \<and>
    0 \<le> minute (JDToDatetime J) \<and> minute (JDToDatetime J) < 60 \<and>
    0 \<le> second (JDToDatetime J) \<and> second (JDToDatetime J) < 60 \<and>
    ((hour (JDToDatetime J) * 60 + minute (JDToDatetime J)) * 60 + second (JDToDatetime J)
        = (hour x * 60 + minute x) * 60 + second x \<or>
     (hour (JDToDatetime J) * 60 + minute (JDToDatetime J)) * 60 + second (JDToDatetime J)
        = (hour x * 60 + minute x) * 60 + second x - 1) \<and>
    (datetimeToJD x \<le> J \<longrightarrow>
       hour (JDToDatetime J) = hour x \<and> minute (JDToDatetime J) = minute x \<and>
       second (JDToDatetime J) = second x)"
proof -
  define F where "F = J + 0.5 - real_of_int \<lfloor>J + 0.5\<rfloor>"
  define h where "h = \<lfloor>F * 24\<rfloor>"
  define n where "n = \<lfloor>(F * 24 - real_of_int h) * 60\<rfloor>"
  define s where "s = \<lfloor>((F * 24 - real_of_int h) * 60 - real_of_int n) * 60\<rfloor>"
  define W where "W = (hour x * 60 + minute x) * 60 + second x"
  have A: "(let Z = 365 * marchYear x + marchYear x div 4 + monthStart (marchMonth x) + date x
                + datetimeToJD_B x + 1720995 in
             if 2299161 \<le> Z
             then Z + 1 + \<lfloor>(real_of_int Z - 1867216.25) / 36524.25\<rfloor>
                  - \<lfloor>real_of_int \<lfloor>(real_of_int Z - 1867216.25) / 36524.25\<rfloor> / 4\<rfloor>
             else Z) =
        365 * marchYear x + marchYear x div 4 + monthStart (marchMonth x) + date x + 1720995"
    using side
  proof
    assume "isAfter x gregorianCutoff"
    with v u show ?thesis by (rule A_after)
  next
    assume "isBefore x julianEnd"
    with v u show ?thesis by (rule A_before)
  qed
  have Z: "\<lfloor>J + 0.5\<rfloor> =
        365 * marchYear x + marchYear x div 4 + monthStart (marchMonth x) + date x
          + datetimeToJD_B x + 1720995"
    unfolding day by (rule JD_floor(1) [OF v])
  have R: "JDToDatetime J =
    \<lparr>year = year x, month = month x, date = date x, hour = h, minute = n,
       second = s, millisecond = 0, tz = ''UTC'', utcOffset = 0, isDST = False,
       creationInput = ''2000-01-01T12:00:00''\<rparr>"
    by (rule decode_from_A [OF v Z A]) (simp_all only: h_def n_def s_def F_def)
  have F01: "0 \<le> F" "F < 1" unfolding F_def by linarith+
  note sf = seconds_fields [OF F01, folded h_def, folded n_def, folded s_def]
  have Fx: "datetimeToJD x + 0.5 - real_of_int \<lfloor>datetimeToJD x + 0.5\<rfloor> = timeOfDay x"
    unfolding JD_floor(1) [OF v] by (rule JD_floor(2) [OF v])
  have t: "timeOfDay x * 86400 = real_of_int W"
    unfolding timeOfDay_millis W_def by simp
  have Fe: "F * 86400 = real_of_int W + (J - datetimeToJD x) * 86400"
    unfolding F_def day t [symmetric] Fx [symmetric] by (simp add: algebra_simps)
  define e where "e = (J - datetimeToJD x) * 86400"
  define dl where "dl = J - datetimeToJD x"
  have "\<bar>dl\<bar> < 1 / 86400" using near by (simp add: dl_def)
  then have "- (1 / 86400) < dl" "dl < 1 / 86400" by (simp_all add: abs_less_iff)
  then have "- 1 < dl * 86400" "dl * 86400 < 1" by (simp_all add: field_simps)
  then have e: "- 1 < e" "e < 1" by (simp_all add: e_def dl_def)
  have fl: "real_of_int \<lfloor>F * 86400\<rfloor> \<le> F * 86400" "F * 86400 < real_of_int \<lfloor>F * 86400\<rfloor> + 1"
    by linarith+
  have "real_of_int W - 2 < real_of_int \<lfloor>F * 86400\<rfloor>"
    "real_of_int \<lfloor>F * 86400\<rfloor> < real_of_int W + 1"
    using fl e unfolding Fe e_def [symmetric] by linarith+
  then have "W - 2 < \<lfloor>F * 86400\<rfloor>" "\<lfloor>F * 86400\<rfloor> < W + 1" by linarith+
  then have w: "(h * 60 + n) * 60 + s = W \<or> (h * 60 + n) * 60 + s = W - 1"
    unfolding sf(7) by linarith
  have up: "h = hour x \<and> n = minute x \<and> s = second x" if "datetimeToJD x \<le> J"
  proof -
    have "0 \<le> e" using that by (simp add: e_def)
    then have "real_of_int W - 1 < real_of_int \<lfloor>F * 86400\<rfloor>"
      using fl unfolding Fe e_def [symmetric] by linarith
    then have "W - 1 < \<lfloor>F * 86400\<rfloor>" by linarith
    with \<open>\<lfloor>F * 86400\<rfloor> < W + 1\<close> have "(h * 60 + n) * 60 + s = W"
      unfolding sf(7) by linarith
    then have eq: "(h * 60 + n) * 60 + s = (hour x * 60 + minute x) * 60 + second x"
      by (simp add: W_def)
    from v have m: "0 \<le> minute x" "minute x < 60" "0 \<le> second x" "second x < 60"
      by (simp_all add: valid_datetime_def)
    from time_fields_unique [OF sf(3-6) m eq] show ?thesis by simp
  qed
  show ?thesis unfolding R using sf(1-6) w up by (simp add: W_def)
qed

theorem JD_roundtrip_witness:
  "year (JDToDatetime (5264651726119191 / 2147483648)) = 2000 \<and>
   month (JDToDatetime (5264651726119191 / 2147483648)) = 0 \<and>
   date (JDToDatetime (5264651726119191 / 2147483648)) = 1 \<and>
   hour (JDToDatetime (5264651726119191 / 2147483648)) = 0 \<and>
   minute (JDToDatetime (5264651726119191 / 2147483648)) = 0 \<and>
   second (JDToDatetime (5264651726119191 / 2147483648)) = 0 \<and>
   second (JDToDatetime (datetimeToJD (utc 2000 0 1 0 0 1 ''2000-01-01T00:00:01Z''))) = 1 \<and>
   date (JDToDatetime (datetimeToJD (utc 1500 1 28 6 30 0 ''1500-02-28T06:30:00Z''))) = 28 \<and>
   second (JDToDatetime (datetimeToJD (utc 1500 1 28 6 30 0 ''1500-02-28T06:30:00Z''))) = 0"
proof -
  have a: "valid_datetime (utc 2000 0 1 0 0 1 ''2000-01-01T00:00:01Z'')"
    "utcOffset (utc 2000 0 1 0 0 1 ''2000-01-01T00:00:01Z'') = 0"
    "isAfter (utc 2000 0 1 0 0 1 ''2000-01-01T00:00:01Z'') gregorianCutoff"
    by code_simp+
  have n: "\<bar>5264651726119191 / 2147483648
      - datetimeToJD (utc 2000 0 1 0 0 1 ''2000-01-01T00:00:01Z'')\<bar> < 1 / 86400"
    "\<lfloor>5264651726119191 / 2147483648 + 0.5 :: real\<rfloor>
      = \<lfloor>datetimeToJD (utc 2000 0 1 0 0 1 ''2000-01-01T00:00:01Z'') + 0.5\<rfloor>"
    by code_simp+
  have n0: "\<bar>datetimeToJD (utc 2000 0 1 0 0 1 ''2000-01-01T00:00:01Z'')
      - datetimeToJD (utc 2000 0 1 0 0 1 ''2000-01-01T00:00:01Z'')\<bar> < 1 / 86400"
    by simp
  have b: "valid_datetime (utc 1500 1 28 6 30 0 ''1500-02-28T06:30:00Z'')"
    "utcOffset (utc 1500 1 28 6 30 0 ''1500-02-28T06:30:00Z'') = 0"
    "isBefore (utc 1500 1 28 6 30 0 ''1500-02-28T06:30:00Z'') julianEnd"
    by code_simp+
  have nb: "\<bar>datetimeToJD (utc 1500 1 28 6 30 0 ''1500-02-28T06:30:00Z'')
      - datetimeToJD (utc 1500 1 28 6 30 0 ''1500-02-28T06:30:00Z'')\<bar> < 1 / 86400"
    by simp
  have f: "year (utc 2000 0 1 0 0 1 ''2000-01-01T00:00:01Z'') = 2000"
    "month (utc 2000 0 1 0 0 1 ''2000-01-01T00:00:01Z'') = 0"
    "date (utc 2000 0 1 0 0 1 ''2000-01-01T00:00:01Z'') = 1"
    "second (utc 2000 0 1 0 0 1 ''2000-01-01T00:00:01Z'') = 1"
    "date (utc 1500 1 28 6 30 0 ''1500-02-28T06:30:00Z'') = 28"
    "second (utc 1500 1 28 6 30 0 ''1500-02-28T06:30:00Z'') = 0"
    by code_simp+
  have g: "hour (JDToDatetime (5264651726119191 / 2147483648)) = 0"
    "minute (JDToDatetime (5264651726119191 / 2147483648)) = 0"
    "second (JDToDatetime (5264651726119191 / 2147483648)) = 0"
    by code_simp+
  show ?thesis
    using JD_roundtrip [OF a(1,2) disjI1 [OF a(3)] n]
      JD_roundtrip [OF a(1,2) disjI1 [OF a(3)] n0 refl]
      JD_roundtrip [OF b(1,2) disjI2 [OF b(3)] nb refl]
      f g
    by simp
qed



text \<open>
  At the cutover instant itself, a noon that the library never passes to \<open>datetimeToJD\<close>,
  \<open>isAfter\<close> is false and \<open>B\<close> is 0; a second later \<open>B\<close> is -10.
\<close>

lemma datetimeToJD_at_cutoff:
  "datetimeToJD_B gregorianCutoff = 0 \<and> datetimeToJD gregorianCutoff = 2299171 \<and>
   datetimeToJD_B (utc 1582 9 15 12 0 1 ''1582-10-15T12:00:01Z'') = - 10 \<and>
   year (JDToDatetime 2299161) = 1582 \<and> month (JDToDatetime 2299161) = 9 \<and>
   date (JDToDatetime 2299161) = 15 \<and> hour (JDToDatetime 2299161) = 12"
  by code_simp




subsection \<open>The store\<close>

lemma take_eq_length: "take (length ys) xs = ys \<Longrightarrow> length ys \<le> length xs"
proof -
  assume "take (length ys) xs = ys"
  then have "length (take (length ys) xs) = length ys" by simp
  then show ?thesis by (simp add: min_def split: if_splits)
qed

lemma extends_length: "extends s s' \<Longrightarrow> length (heap s) \<le> length (heap s')"
  unfolding extends_def by (simp add: take_eq_length)

lemma extends_refl: "extends s s"
  by (simp add: extends_def)

lemma extends_trans: "extends s s' \<Longrightarrow> extends s' s'' \<Longrightarrow> extends s s''"
proof -
  assume a: "extends s s'" and b: "extends s' s''"
  from a have l: "length (heap s) \<le> length (heap s')" by (rule extends_length)
  have "take (length (heap s)) (heap s'') =
      take (length (heap s)) (take (length (heap s')) (heap s''))"
    using l by (simp add: min_def)
  also have "\<dots> = heap s" using a b by (simp add: extends_def)
  finally show ?thesis using a b by (simp add: extends_def)
qed



lemma update_extends:
  assumes "extends s0 s" "length (heap s0) \<le> r"
  shows "extends s0 (update r f s)"
  using assms by (simp add: update_def extends_def)

lemma update_length [simp]: "length (heap (update r f s)) = length (heap s)"
  by (simp add: update_def)

lemma update_flags [simp]:
  "roundToNearestMinute (update r f s) = roundToNearestMinute s"
  "returnTimeForPNMS (update r f s) = returnTimeForPNMS s"
  by (simp_all add: update_def)

lemma approxLocalHourAngle_extends:
  "extends s (snd (approxLocalHourAngle s phi delta))"
  by (auto simp: approxLocalHourAngle_def alloc_def extends_def)

lemma approxLocalHourAngle_thrown:
  assumes "fst (approxLocalHourAngle s phi delta) = Inl (Ref r)"
  shows "r = length (heap s)"
  using assms by (auto simp: approxLocalHourAngle_def alloc_def split: if_splits)


lemma sunRiseSet_outcome:
  fixes db s p phi L flag
  defines "d \<equiv> heap s ! p"
  defines "s1 \<equiv> s\<lparr>heap := heap s @ [utc (year d) (month d) (date d) 0 0 0 []]\<rparr>"
  defines "c \<equiv> cosH0 phi (sunRiseSet_delta d)"
  shows "c < - 1 \<Longrightarrow> \<not> returnTimeForPNMS s \<Longrightarrow>
      sunRiseSet db s p phi L flag = (Inl (Str ''MS''), s1)"
    and "c < - 1 \<Longrightarrow> returnTimeForPNMS s \<Longrightarrow>
      sunRiseSet db s p phi L flag =
        (Inl (Ref (Suc (length (heap s)))),
         s1\<lparr>heap := heap s1 @ [placeholder ''**2000-01-01 12:00:00'']\<rparr>)"
    and "\<not> c < - 1 \<Longrightarrow> c > 1 \<Longrightarrow> \<not> returnTimeForPNMS s \<Longrightarrow>
      sunRiseSet db s p phi L flag = (Inl (Str ''PN''), s1)"
    and "\<not> c < - 1 \<Longrightarrow> c > 1 \<Longrightarrow> returnTimeForPNMS s \<Longrightarrow>
      sunRiseSet db s p phi L flag =
        (Inl (Ref (Suc (length (heap s)))),
         s1\<lparr>heap := heap s1 @ [placeholder ''--2000-01-01 12:00:00'']\<rparr>)"
    and "\<not> c < - 1 \<Longrightarrow> \<not> c > 1 \<Longrightarrow> flag \<noteq> ''RISE'' \<Longrightarrow> flag \<noteq> ''SET'' \<Longrightarrow>
      sunRiseSet db s p phi L flag = (Inr JSFalse, s1)"
    and "\<not> c < - 1 \<Longrightarrow> \<not> c > 1 \<Longrightarrow> flag = ''RISE'' \<or> flag = ''SET'' \<Longrightarrow>
      fst (sunRiseSet db s p phi L flag) = Inr (Ref (length (heap s))) \<and>
      extends s (snd (sunRiseSet db s p phi L flag))"
proof -
  have e1: "extends s s1" by (simp add: s1_def extends_def)
  show "c < - 1 \<Longrightarrow> \<not> returnTimeForPNMS s \<Longrightarrow>
      sunRiseSet db s p phi L flag = (Inl (Str ''MS''), s1)"
    unfolding c_def s1_def d_def
    by (simp add: sunRiseSet_def Let_def alloc_def approxLocalHourAngle_def sunRiseSet_delta_def)
  show "c < - 1 \<Longrightarrow> returnTimeForPNMS s \<Longrightarrow>
      sunRiseSet db s p phi L flag =
        (Inl (Ref (Suc (length (heap s)))),
         s1\<lparr>heap := heap s1 @ [placeholder ''**2000-01-01 12:00:00'']\<rparr>)"
    unfolding c_def s1_def d_def
    by (simp add: sunRiseSet_def Let_def alloc_def approxLocalHourAngle_def sunRiseSet_delta_def)
  show "\<not> c < - 1 \<Longrightarrow> c > 1 \<Longrightarrow> \<not> returnTimeForPNMS s \<Longrightarrow>
      sunRiseSet db s p phi L flag = (Inl (Str ''PN''), s1)"
    unfolding c_def s1_def d_def
    by (simp add: sunRiseSet_def Let_def alloc_def approxLocalHourAngle_def sunRiseSet_delta_def)
  show "\<not> c < - 1 \<Longrightarrow> c > 1 \<Longrightarrow> returnTimeForPNMS s \<Longrightarrow>
      sunRiseSet db s p phi L flag =
        (Inl (Ref (Suc (length (heap s)))),
         s1\<lparr>heap := heap s1 @ [placeholder ''--2000-01-01 12:00:00'']\<rparr>)"
    unfolding c_def s1_def d_def
    by (simp add: sunRiseSet_def Let_def alloc_def approxLocalHourAngle_def sunRiseSet_delta_def)
  show "\<not> c < - 1 \<Longrightarrow> \<not> c > 1 \<Longrightarrow> flag \<noteq> ''RISE'' \<Longrightarrow> flag \<noteq> ''SET'' \<Longrightarrow>
      sunRiseSet db s p phi L flag = (Inr JSFalse, s1)"
    unfolding c_def s1_def d_def
    by (simp add: sunRiseSet_def Let_def alloc_def approxLocalHourAngle_def sunRiseSet_delta_def)
  show "\<not> c < - 1 \<Longrightarrow> \<not> c > 1 \<Longrightarrow> flag = ''RISE'' \<or> flag = ''SET'' \<Longrightarrow>
      fst (sunRiseSet db s p phi L flag) = Inr (Ref (length (heap s))) \<and>
      extends s (snd (sunRiseSet db s p phi L flag))"
    unfolding c_def d_def
    by (auto simp: sunRiseSet_def Let_def alloc_def approxLocalHourAngle_def
        sunRiseSet_delta_def intro!: update_extends e1 [unfolded s1_def d_def])
qed

lemma withValue_labels [simp]:
  "creationInput (withValue dt v) = creationInput dt" "tz (withValue dt v) = tz dt"
  by (simp_all add: withValue_def Let_def split: prod.splits)

lemma normalize_labels [simp]:
  "creationInput (normalize dt) = creationInput dt" "tz (normalize dt) = tz dt"
  by (simp_all add: normalize_def)

lemma setter_labels [simp]:
  "creationInput (set_year y dt) = creationInput dt" "tz (set_year y dt) = tz dt"
  "creationInput (set_month m dt) = creationInput dt" "tz (set_month m dt) = tz dt"
  "creationInput (set_date d dt) = creationInput dt" "tz (set_date d dt) = tz dt"
  "creationInput (set_hour h dt) = creationInput dt" "tz (set_hour h dt) = tz dt"
  "creationInput (set_minute n dt) = creationInput dt" "tz (set_minute n dt) = tz dt"
  "creationInput (set_second c dt) = creationInput dt" "tz (set_second c dt) = tz dt"
  by (simp_all add: set_year_def set_month_def set_date_def set_hour_def set_minute_def
      set_second_def)

lemma zoned_labels:
  assumes "\<And>x. creationInput (f x) = creationInput x" "\<And>x. tz (f x) = tz x"
  shows "creationInput (zoned db f dt) = creationInput dt" "tz (zoned db f dt) = tz dt"
  using assms by (simp_all add: zoned_def Let_def)

lemma setZone_labels [simp]:
  "creationInput (setZone db z dt) = creationInput dt"
  "z \<noteq> [] \<Longrightarrow> tz (setZone db z dt) = z"
  by (simp_all add: setZone_def Let_def)

lemma returnPNMS_plain:
  "\<not> returnTimeForPNMS s \<Longrightarrow> returnPNMS db s v p h = (Inr v, s)"
  by (simp add: returnPNMS_def)

lemma returnPNMS_moment:
  assumes "returnTimeForPNMS s" "r < length (heap s)" "tz (heap s ! p) \<noteq> []"
  shows "fst (returnPNMS db s (Ref r) p h) = Inr (Ref r)"
    and "creationInput (heap (snd (returnPNMS db s (Ref r) p h)) ! r) = creationInput (heap s ! r)"
    and "heap (snd (returnPNMS db s (Ref r) p h)) ! r =
      zoned db (set_second 0) (zoned db (set_minute 0)
        (zoned db (set_hour (if isDST (heap s ! p) then h + 1 else h))
          (zoned db (set_date (date (heap s ! p))) (zoned db (set_month (month (heap s ! p)))
            (zoned db (set_year (year (heap s ! p)))
              (setZone db (tz (heap s ! p)) (heap s ! r)))))))"
  using assms
  by (simp_all add: returnPNMS_def Let_def update_def zoned_labels)

lemma returnPNMS_unzoned:
  assumes "returnTimeForPNMS s" "tz (heap s ! p) = []"
  shows "returnPNMS db s (Ref r) p h = (Inl TypeError, s)"
  using assms by (simp add: returnPNMS_def Let_def)

lemma returnPNMS_extends:
  assumes "returnTimeForPNMS s" "length (heap s0) \<le> r" "extends s0 s"
  shows "extends s0 (snd (returnPNMS db s (Ref r) p h))"
  using assms by (simp add: returnPNMS_def Let_def update_extends)

lemma riseSet_api:
  fixes db s p phi L flag h
  assumes flag: "flag = ''RISE'' \<or> flag = ''SET''"
  defines "c \<equiv> cosH0 phi (sunRiseSet_delta (heap s ! p))"
  defines "R \<equiv> (case sunRiseSet db s p phi L flag of
                   (Inl err, s') \<Rightarrow> returnPNMS db s' err p h
                 | (Inr v, s') \<Rightarrow> (Inr v, s'))"
  defines "moved \<equiv> (\<lambda>x.
      zoned db (set_second 0) (zoned db (set_minute 0)
        (zoned db (set_hour (if isDST (heap s ! p) then h + 1 else h))
          (zoned db (set_date (date (heap s ! p))) (zoned db (set_month (month (heap s ! p)))
            (zoned db (set_year (year (heap s ! p))) (setZone db (tz (heap s ! p)) x)))))))"
  shows "c < - 1 \<Longrightarrow> \<not> returnTimeForPNMS s \<Longrightarrow> fst R = Inr (Str ''MS'')"
    and "c > 1 \<Longrightarrow> \<not> returnTimeForPNMS s \<Longrightarrow> fst R = Inr (Str ''PN'')"
    and "c < - 1 \<Longrightarrow> returnTimeForPNMS s \<Longrightarrow> p < length (heap s) \<Longrightarrow> tz (heap s ! p) \<noteq> [] \<Longrightarrow>
       fst R = Inr (Ref (Suc (length (heap s)))) \<and>
       creationInput (heap (snd R) ! Suc (length (heap s))) = ''**2000-01-01 12:00:00'' \<and>
       heap (snd R) ! Suc (length (heap s)) = moved (placeholder ''**2000-01-01 12:00:00'')"
    and "c > 1 \<Longrightarrow> returnTimeForPNMS s \<Longrightarrow> p < length (heap s) \<Longrightarrow> tz (heap s ! p) \<noteq> [] \<Longrightarrow>
       fst R = Inr (Ref (Suc (length (heap s)))) \<and>
       creationInput (heap (snd R) ! Suc (length (heap s))) = ''--2000-01-01 12:00:00'' \<and>
       heap (snd R) ! Suc (length (heap s)) = moved (placeholder ''--2000-01-01 12:00:00'')"
    and "extends s (snd R)"
    and "\<forall>r. fst R = Inr (Ref r) \<longrightarrow> length (heap s) \<le> r"
    and "p < length (heap s) \<Longrightarrow> tz (heap s ! p) \<noteq> [] \<or> \<not> returnTimeForPNMS s \<Longrightarrow>
       \<exists>v. fst R = Inr v"
    and "p < length (heap s) \<Longrightarrow> tz (heap s ! p) = [] \<Longrightarrow> returnTimeForPNMS s \<Longrightarrow>
       c < - 1 \<or> c > 1 \<Longrightarrow> fst R = Inl TypeError"
proof -
  define d where "d = heap s ! p"
  define s1 where "s1 = s\<lparr>heap := heap s @ [utc (year d) (month d) (date d) 0 0 0 []]\<rparr>"
  have cd: "cosH0 phi (sunRiseSet_delta d) = c" by (simp add: c_def d_def)
  note o = sunRiseSet_outcome [where s = s and p = p and phi = phi and db = db and L = L
      and flag = flag, folded d_def, folded s1_def, unfolded cd]
  have e1: "extends s s1" by (simp add: s1_def extends_def)
  have f1: "returnTimeForPNMS s1 = returnTimeForPNMS s" by (simp add: s1_def)
  have l1: "length (heap s1) = Suc (length (heap s))" by (simp add: s1_def)
  define s2 where "s2 = (\<lambda>input. s1\<lparr>heap := heap s1 @ [placeholder input]\<rparr>)"
  have e2: "extends s (s2 i)" for i
    using e1 by (auto simp: s2_def extends_def s1_def)
  have f2: "returnTimeForPNMS (s2 i) = returnTimeForPNMS s" for i by (simp add: s2_def s1_def)
  have l2: "Suc (length (heap s)) < length (heap (s2 i))" for i by (simp add: s2_def s1_def)
  have n2: "heap (s2 i) ! Suc (length (heap s)) = placeholder i" for i
    by (simp add: s2_def s1_def nth_append)
  have p2: "heap (s2 i) ! p = d" if "p < length (heap s)" for i
    using that by (simp add: s2_def s1_def nth_append d_def)
  have MS0: "R = (Inr (Str ''MS''), s1)" if "c < - 1" "\<not> returnTimeForPNMS s"
    unfolding R_def o(1) [OF that] using that(2) f1 by (simp add: returnPNMS_plain)
  have PN0: "R = (Inr (Str ''PN''), s1)" if "\<not> c < - 1" "c > 1" "\<not> returnTimeForPNMS s"
    unfolding R_def o(3) [OF that] using that(3) f1 by (simp add: returnPNMS_plain)
  have MS1: "R = returnPNMS db (s2 ''**2000-01-01 12:00:00'') (Ref (Suc (length (heap s)))) p h"
    if "c < - 1" "returnTimeForPNMS s"
    unfolding R_def o(2) [OF that] s2_def by simp
  have PN1: "R = returnPNMS db (s2 ''--2000-01-01 12:00:00'') (Ref (Suc (length (heap s)))) p h"
    if "\<not> c < - 1" "c > 1" "returnTimeForPNMS s"
    unfolding R_def o(4) [OF that] s2_def by simp
  have E: "extends s (snd (returnPNMS db (s2 i) (Ref (Suc (length (heap s)))) p h))"
    if "returnTimeForPNMS s" for i
    using returnPNMS_extends [of "s2 i" s "Suc (length (heap s))" db p h] that f2 e2
    by simp
  have G: "\<forall>r. fst (returnPNMS db (s2 i) (Ref (Suc (length (heap s)))) p h) = Inr (Ref r)
      \<longrightarrow> length (heap s) \<le> r" for i
    by (simp add: returnPNMS_def Let_def)
  have P: "fst (returnPNMS db (s2 i) (Ref (Suc (length (heap s)))) p h)
        = Inr (Ref (Suc (length (heap s)))) \<and>
      creationInput (heap (snd (returnPNMS db (s2 i) (Ref (Suc (length (heap s)))) p h))
        ! Suc (length (heap s))) = i \<and>
      heap (snd (returnPNMS db (s2 i) (Ref (Suc (length (heap s)))) p h))
        ! Suc (length (heap s)) = moved (placeholder i)"
    if "returnTimeForPNMS s" "p < length (heap s)" "tz d \<noteq> []" for i
    using returnPNMS_moment [of "s2 i" "Suc (length (heap s))" p db h] that f2 l2 n2 p2
    by (simp add: placeholder_def moved_def d_def)
  have U: "returnPNMS db (s2 i) (Ref (Suc (length (heap s)))) p h = (Inl TypeError, s2 i)"
    if "returnTimeForPNMS s" "p < length (heap s)" "tz d = []" for i
    using returnPNMS_unzoned [of "s2 i" p db "Suc (length (heap s))" h] that f2 p2 by simp
  show "c < - 1 \<Longrightarrow> \<not> returnTimeForPNMS s \<Longrightarrow> fst R = Inr (Str ''MS'')"
    using MS0 by simp
  show "c > 1 \<Longrightarrow> \<not> returnTimeForPNMS s \<Longrightarrow> fst R = Inr (Str ''PN'')"
    using PN0 by simp
  show "fst R = Inr (Ref (Suc (length (heap s)))) \<and>
       creationInput (heap (snd R) ! Suc (length (heap s))) = ''**2000-01-01 12:00:00'' \<and>
       heap (snd R) ! Suc (length (heap s)) = moved (placeholder ''**2000-01-01 12:00:00'')"
    if a: "c < - 1" "returnTimeForPNMS s" "p < length (heap s)" "tz (heap s ! p) \<noteq> []"
    unfolding MS1 [OF a(1,2)] by (rule P [OF a(2,3) a(4) [folded d_def]])
  show "fst R = Inr (Ref (Suc (length (heap s)))) \<and>
       creationInput (heap (snd R) ! Suc (length (heap s))) = ''--2000-01-01 12:00:00'' \<and>
       heap (snd R) ! Suc (length (heap s)) = moved (placeholder ''--2000-01-01 12:00:00'')"
    if a: "c > 1" "returnTimeForPNMS s" "p < length (heap s)" "tz (heap s ! p) \<noteq> []"
  proof -
    have nc: "\<not> c < - 1" using a(1) by simp
    show ?thesis
      unfolding PN1 [OF nc a(1,2)] by (rule P [OF a(2,3) a(4) [folded d_def]])
  qed
  consider (ms0) "c < - 1" "\<not> returnTimeForPNMS s" | (ms1) "c < - 1" "returnTimeForPNMS s"
    | (pn0) "\<not> c < - 1" "c > 1" "\<not> returnTimeForPNMS s"
    | (pn1) "\<not> c < - 1" "c > 1" "returnTimeForPNMS s"
    | (ok) "\<not> c < - 1" "\<not> c > 1"
    by blast
  note cases5 = this
  from cases5 show "extends s (snd R)"
  proof cases
    case ms0 then show ?thesis using MS0 e1 by simp
  next
    case ms1 then show ?thesis using MS1 E by simp
  next
    case pn0 then show ?thesis using PN0 e1 by simp
  next
    case pn1 then show ?thesis using PN1 E by simp
  next
    case ok
    from o(6) [OF ok flag] show ?thesis unfolding R_def by (auto split: prod.splits sum.splits)
  qed
  from cases5 show "\<forall>r. fst R = Inr (Ref r) \<longrightarrow> length (heap s) \<le> r"
  proof cases
    case ms0 then show ?thesis using MS0 by simp
  next
    case ms1 then show ?thesis using MS1 G by simp
  next
    case pn0 then show ?thesis using PN0 by simp
  next
    case pn1 then show ?thesis using PN1 G by simp
  next
    case ok
    from o(6) [OF ok flag] show ?thesis unfolding R_def by (auto split: prod.splits sum.splits)
  qed
  show "\<exists>v. fst R = Inr v"
    if "p < length (heap s)" "tz (heap s ! p) \<noteq> [] \<or> \<not> returnTimeForPNMS s"
    using cases5
  proof cases
    case ms0 then show ?thesis using MS0 by simp
  next
    case ms1
    then have "tz d \<noteq> []" using that(2) by (simp add: d_def)
    from P [OF ms1(2) that(1) this] show ?thesis unfolding MS1 [OF ms1] by blast
  next
    case pn0 then show ?thesis using PN0 by simp
  next
    case pn1
    then have "tz d \<noteq> []" using that(2) by (simp add: d_def)
    from P [OF pn1(3) that(1) this] show ?thesis unfolding PN1 [OF pn1] by blast
  next
    case ok
    from o(6) [OF ok flag] show ?thesis unfolding R_def by (auto split: prod.splits sum.splits)
  qed
  show "fst R = Inl TypeError"
    if "p < length (heap s)" "tz (heap s ! p) = []" "returnTimeForPNMS s" "c < - 1 \<or> c > 1"
  proof (cases "c < - 1")
    case True
    then show ?thesis using MS1 U that by (simp add: d_def)
  next
    case False
    then have "c > 1" using that(4) by simp
    then show ?thesis using False PN1 U that by (simp add: d_def)
  qed
qed

subsection \<open>Bounds on sines and cosines\<close>

lemma sin_coeff_values:
  "sin_coeff (Suc 0) = 1" "sin_coeff 2 = 0" "sin_coeff 3 = - 1 / 6"
  "sin_coeff 4 = 0" "sin_coeff 5 = 1 / 120" "sin_coeff 6 = 0"
  by (simp_all add: sin_coeff_def fact_numeral)

lemma cos_coeff_values:
  "cos_coeff (Suc 0) = 0" "cos_coeff 2 = - 1 / 2" "cos_coeff 3 = 0"
  "cos_coeff 4 = 1 / 24" "cos_coeff 5 = 0"
  by (simp_all add: cos_coeff_def fact_numeral)

lemma less_than_sets: "{..<3::nat} = {0, 1, 2}" "{..<6::nat} = {0, 1, 2, 3, 4, 5}"
  "{..<7::nat} = {0, 1, 2, 3, 4, 5, 6}"
  by auto

lemma sin_taylor3: "\<bar>sin x - x\<bar> \<le> \<bar>x\<bar> ^ 3 / 6" for x :: real
proof -
  have s: "(\<Sum>m<3. sin_coeff m * x ^ m) = x"
    unfolding less_than_sets by (simp add: sin_coeff_values)
  have f: "inverse (fact 3) * \<bar>x\<bar> ^ 3 = \<bar>x\<bar> ^ 3 / 6"
    by (simp add: fact_numeral)
  show ?thesis using Maclaurin_sin_bound [of x 3] unfolding s f .
qed

lemma sin_taylor7: "\<bar>sin x - (x - x ^ 3 / 6 + x ^ 5 / 120)\<bar> \<le> \<bar>x\<bar> ^ 7 / 5040" for x :: real
proof -
  have s: "(\<Sum>m<7. sin_coeff m * x ^ m) = x - x ^ 3 / 6 + x ^ 5 / 120"
    unfolding less_than_sets by (simp add: sin_coeff_values)
  have f: "inverse (fact 7) * \<bar>x\<bar> ^ 7 = \<bar>x\<bar> ^ 7 / 5040"
    by (simp add: fact_numeral)
  show ?thesis using Maclaurin_sin_bound [of x 7] unfolding s f .
qed

lemma cos_taylor6: "\<bar>cos x - (1 - x\<^sup>2 / 2 + x ^ 4 / 24)\<bar> \<le> \<bar>x\<bar> ^ 6 / 720" for x :: real
proof -
  obtain t where t: "cos x = (\<Sum>m<6. cos_coeff m * x ^ m) + cos (t + 1 / 2 * real 6 * pi) / fact 6 * x ^ 6"
    using Maclaurin_cos_expansion [of x 6] by blast
  have s: "(\<Sum>m<6. cos_coeff m * x ^ m) = 1 - x\<^sup>2 / 2 + x ^ 4 / 24"
    unfolding less_than_sets by (simp add: cos_coeff_values)
  have f: "(fact 6 :: real) = 720" by (simp add: fact_numeral)
  have "\<bar>cos (t + 1 / 2 * real 6 * pi) / fact 6 * x ^ 6\<bar> \<le> \<bar>x\<bar> ^ 6 / 720"
  proof -
    have "\<bar>cos (t + 1 / 2 * real 6 * pi)\<bar> \<le> 1" by (rule abs_cos_le_one)
    then have "\<bar>cos (t + 1 / 2 * real 6 * pi)\<bar> * \<bar>x\<bar> ^ 6 \<le> 1 * \<bar>x\<bar> ^ 6"
      by (intro mult_right_mono) simp_all
    then show ?thesis unfolding f by (simp add: abs_mult power_abs)
  qed
  then show ?thesis unfolding t s by simp
qed

lemma sind_bound: "\<bar>sind x\<bar> \<le> 1"
  unfolding sind_def by simp

lemma cosd_bound: "\<bar>cosd x\<bar> \<le> 1"
  unfolding cosd_def by simp

lemma scaled_bound: "\<bar>a * s\<bar> \<le> b" if "\<bar>a\<bar> \<le> b" "\<bar>s\<bar> \<le> 1" for a s b :: real
proof -
  have "\<bar>a * s\<bar> = \<bar>a\<bar> * \<bar>s\<bar>" by (simp add: abs_mult)
  also have "\<dots> \<le> \<bar>a\<bar> * 1" using that(2) by (intro mult_left_mono) simp_all
  finally show ?thesis using that(1) by simp
qed

lemma polynomial_loop_bound:
  assumes "\<bar>x\<bar> \<le> 1"
  shows "\<bar>polynomial_loop x cs p acc - acc\<bar> \<le> \<bar>p\<bar> * sum_list (map abs cs)"
proof (induction cs arbitrary: p acc)
  case Nil
  show ?case by simp
next
  case (Cons c cs)
  have s: "0 \<le> sum_list (map abs cs)" by (rule sum_list_nonneg) auto
  have "\<bar>p * x\<bar> \<le> \<bar>p\<bar>" using assms by (simp add: abs_mult mult_left_le)
  then have px: "\<bar>p * x\<bar> * sum_list (map abs cs) \<le> \<bar>p\<bar> * sum_list (map abs cs)"
    using s by (rule mult_right_mono)
  have "\<bar>polynomial_loop x cs (p * x) (acc + p * c) - (acc + p * c)\<bar>
      \<le> \<bar>p * x\<bar> * sum_list (map abs cs)" by (rule Cons.IH)
  then have "\<bar>polynomial_loop x cs (p * x) (acc + p * c) - acc\<bar>
      \<le> \<bar>p * c\<bar> + \<bar>p\<bar> * sum_list (map abs cs)" using px by linarith
  then show ?case by (simp add: abs_mult distrib_left)
qed

lemma nutationInObliquity_loop_bound:
  assumes "\<bar>T\<bar> \<le> 1"
  shows "\<bar>nutationInObliquity_loop T D M M' F Omega rows acc\<bar>
    \<le> \<bar>acc\<bar> + sum_list (map (\<lambda>(n0, n1, n2, n3, n4, n5, n6, n7, n8). \<bar>n7\<bar> + \<bar>n8\<bar>) rows)"
proof (induction rows arbitrary: acc)
  case Nil
  show ?case by simp
next
  case (Cons r rows)
  obtain n0 n1 n2 n3 n4 n5 n6 n7 n8 where r: "r = (n0, n1, n2, n3, n4, n5, n6, n7, n8)"
    by (metis prod_cases5)
  define c where "c = cosd (n0 * D + n1 * M + n2 * M' + n3 * F + n4 * Omega)"
  have "\<bar>n8 * T\<bar> \<le> \<bar>n8\<bar>" using assms by (simp add: abs_mult mult_left_le)
  then have "\<bar>n7 + n8 * T\<bar> \<le> \<bar>n7\<bar> + \<bar>n8\<bar>" by linarith
  then have t: "\<bar>(n7 + n8 * T) * c\<bar> \<le> \<bar>n7\<bar> + \<bar>n8\<bar>"
    by (rule scaled_bound) (simp add: c_def cosd_bound)
  have "\<bar>nutationInObliquity_loop T D M M' F Omega rows (acc + (n7 + n8 * T) * c)\<bar>
      \<le> \<bar>acc + (n7 + n8 * T) * c\<bar>
        + sum_list (map (\<lambda>(n0, n1, n2, n3, n4, n5, n6, n7, n8). \<bar>n7\<bar> + \<bar>n8\<bar>) rows)"
    by (rule Cons.IH)
  then show ?case using t by (simp add: r c_def Let_def)
qed

lemma nutation_table_sum:
  "sum_list (map (\<lambda>(n0, n1, n2, n3, n4, n5, n6, n7, n8). \<bar>n7\<bar> + \<bar>n8\<bar>) (take 63 nutations))
     \<le> (108000 :: real)"
  unfolding nutations_def by simp

lemma nutationInObliquity_bound:
  assumes "\<bar>T\<bar> \<le> 1"
  shows "\<bar>nutationInObliquity T\<bar> \<le> 0.003"
proof -
  have "\<bar>nutationInObliquity_loop T D M M' F Omega (take 63 nutations) 0\<bar> \<le> 108000"
    for D M M' F Omega
    using nutationInObliquity_loop_bound [OF assms, of D M M' F Omega "take 63 nutations" 0]
      nutation_table_sum by simp
  then show ?thesis unfolding nutationInObliquity_def Let_def by (simp add: abs_le_iff)
qed


lemma sin_lower:
  fixes x lo hi :: real
  assumes "lo \<le> x" "x \<le> hi" "0 \<le> lo"
  shows "lo - hi ^ 3 / 6 + lo ^ 5 / 120 - hi ^ 7 / 5040 \<le> sin x"
proof -
  have x0: "0 \<le> x" using assms by simp
  have a: "x ^ 3 \<le> hi ^ 3" using assms(2) x0 by (rule power_mono)
  have b: "lo ^ 5 \<le> x ^ 5" using assms(1,3) by (rule power_mono)
  have c: "\<bar>x\<bar> ^ 7 \<le> hi ^ 7" using assms(2) x0 by (intro power_mono) simp_all
  show ?thesis using sin_taylor7 [of x] a b c assms(1) by linarith
qed

lemma sin_lower_small:
  fixes x lo hi :: real
  assumes "lo \<le> x" "x \<le> hi" "0 \<le> lo"
  shows "lo - hi ^ 3 / 6 \<le> sin x" "sin x \<le> hi"
proof -
  have x0: "0 \<le> x" using assms by simp
  have c: "\<bar>x\<bar> ^ 3 \<le> hi ^ 3" using assms(2) x0 by (intro power_mono) simp_all
  show "lo - hi ^ 3 / 6 \<le> sin x" using sin_taylor3 [of x] c assms(1) by linarith
  show "sin x \<le> hi" using sin_x_le_x [OF x0] assms(2) by linarith
qed

lemma cos_lower:
  fixes x :: real
  assumes "\<bar>x\<bar> \<le> 1 / 10"
  shows "99 / 100 \<le> cos x"
proof -
  have a: "x\<^sup>2 \<le> (1 / 10)\<^sup>2" using assms by (simp add: abs_le_square_iff [symmetric])
  have b: "\<bar>x\<bar> ^ 6 \<le> (1 / 10) ^ 6" using assms by (intro power_mono) simp_all
  have c: "0 \<le> x ^ 4" by simp
  have a': "x\<^sup>2 \<le> 1 / 100" using a by (simp add: power2_eq_square)
  have b': "\<bar>x\<bar> ^ 6 \<le> 1 / 1000000" using b by (simp add: power_divide)
  show ?thesis using cos_taylor6 [of x] a' b' c by linarith
qed

lemma sunMeanLongitude_range:
  assumes "46 / 10000 \<le> T" "T \<le> 47 / 10000"
  shows "86 \<le> sunMeanLongitude_1 T" "sunMeanLongitude_1 T \<le> 90"
proof -
  define x where "x = polynomial T sunMeanLongitude"
  have x: "x = 28046646 / 100000 + T * (3600076983 / 100000) + T * T * (3032 / 10000000)"
    by (simp add: x_def polynomial_def sunMeanLongitude_def)
  have t0: "0 \<le> T * T" by simp
  have t1: "T * T \<le> 1" using assms by (intro mult_le_one) simp_all
  have lo: "446 \<le> x" and hi: "x \<le> 450" using assms t0 t1 unfolding x by linarith+
  have "\<lfloor>x / 360\<rfloor> = 1" using lo hi by (intro floor_unique) simp_all
  then have "sunMeanLongitude_1 T = x - 360"
    by (simp add: sunMeanLongitude_1_def reduceAngle_def x_def)
  then show "86 \<le> sunMeanLongitude_1 T" "sunMeanLongitude_1 T \<le> 90"
    using lo hi by simp_all
qed

lemma sunEquationOfCenter_bound:
  assumes "0 \<le> T" "T \<le> 1"
  shows "\<bar>sunEquationOfCenter T\<bar> \<le> 2"
proof -
  define M where "M = sunMeanAnomaly_2 T"
  define a where "a = 1914602 / 1000000 - (4817 / 1000000) * T - (14 / 1000000) * (T * T)"
  define b where "b = 19993 / 1000000 - (101 / 1000000) * T"
  have e: "sunEquationOfCenter T = a * sind M + b * sind (2 * M) + (29 / 100000) * sind (3 * M)"
    by (simp add: sunEquationOfCenter_def Let_def M_def a_def b_def)
  have t0: "0 \<le> T * T" by simp
  have t1: "T * T \<le> 1" using assms by (intro mult_le_one) simp_all
  have "\<bar>a\<bar> \<le> 192 / 100" using assms t0 t1 unfolding a_def by linarith
  then have a: "\<bar>a * sind M\<bar> \<le> 192 / 100"
    by (rule scaled_bound) (rule sind_bound)
  have "\<bar>b\<bar> \<le> 2 / 100" using assms unfolding b_def by linarith
  then have b: "\<bar>b * sind (2 * M)\<bar> \<le> 2 / 100"
    by (rule scaled_bound) (rule sind_bound)
  have c: "\<bar>(29 / 100000) * sind (3 * M)\<bar> \<le> 29 / 100000"
    by (rule scaled_bound) (simp_all add: sind_bound)
  show ?thesis unfolding e using a b c by linarith
qed

lemma sunApparentLongitude_range:
  assumes "46 / 10000 \<le> T" "T \<le> 47 / 10000"
  shows "839 / 10 \<le> sunApparentLongitude T" "sunApparentLongitude T \<le> 921 / 10"
proof -
  define w where "w = sind (moonAscendingNodeLongitude_2 T)"
  have e: "sunApparentLongitude T =
      sunMeanLongitude_1 T + sunEquationOfCenter T - 569 / 100000 - (478 / 100000) * w"
    by (simp add: sunApparentLongitude_def sunTrueLongitude_def Let_def w_def)
  have c: "\<bar>sunEquationOfCenter T\<bar> \<le> 2"
    using assms by (intro sunEquationOfCenter_bound) simp_all
  have o: "\<bar>(478 / 100000) * w\<bar> \<le> 478 / 100000"
    by (rule scaled_bound) (simp_all add: sind_bound w_def)
  show "839 / 10 \<le> sunApparentLongitude T" "sunApparentLongitude T \<le> 921 / 10"
    unfolding e using sunMeanLongitude_range [OF assms] c o by linarith+
qed

lemma meanObliquityOfEcliptic_range:
  assumes "46 / 10000 \<le> T" "T \<le> 47 / 10000"
  shows "23439 / 1000 \<le> meanObliquityOfEcliptic_1 T" "meanObliquityOfEcliptic_1 T \<le> 2344 / 100"
proof -
  define U where "U = T / 100"
  define cs :: "real list" where
    "cs = [- 4680.93 / 3600, - 1.55 / 3600, 1999.25 / 3600,
      - 51.38 / 3600, - 249.67 / 3600, - 39.05 / 3600, 7.12 / 3600, 27.87 / 3600,
      5.79 / 3600, 2.45 / 3600]"
  define c0 :: real where "c0 = 84381448 / 3600000"
  have u: "\<bar>U\<bar> \<le> 1" "\<bar>U\<bar> \<le> 1 / 10000" using assms by (simp_all add: U_def)
  have e: "meanObliquityOfEcliptic_1 T = polynomial_loop U cs U c0"
    by (simp add: meanObliquityOfEcliptic_1_def meanObliquityOfEcliptic_def polynomial_def
        U_def cs_def c0_def)
  have s: "sum_list (map abs cs) \<le> 2" by (simp add: cs_def)
  have s0: "0 \<le> sum_list (map abs cs)" by (rule sum_list_nonneg) auto
  have "\<bar>U\<bar> * sum_list (map abs cs) \<le> (1 / 10000) * 2"
    using u(2) s s0 by (intro mult_mono) simp_all
  then have "\<bar>meanObliquityOfEcliptic_1 T - c0\<bar> \<le> 2 / 10000"
    using polynomial_loop_bound [OF u(1), of cs U c0] unfolding e by linarith
  then show "23439 / 1000 \<le> meanObliquityOfEcliptic_1 T"
    "meanObliquityOfEcliptic_1 T \<le> 2344 / 100"
    unfolding c0_def by linarith+
qed

lemma obliquity_range:
  assumes "46 / 10000 \<le> T" "T \<le> 47 / 10000"
  shows "2343 / 100 \<le> trueObliquityOfEcliptic T + 0.00256 * cosd (moonAscendingNodeLongitude_2 T)"
    "trueObliquityOfEcliptic T + 0.00256 * cosd (moonAscendingNodeLongitude_2 T) \<le> 2345 / 100"
proof -
  define w where "w = cosd (moonAscendingNodeLongitude_2 T)"
  have e: "trueObliquityOfEcliptic T + 0.00256 * cosd (moonAscendingNodeLongitude_2 T) =
      meanObliquityOfEcliptic_1 T + nutationInObliquity T + (256 / 100000) * w"
    by (simp add: trueObliquityOfEcliptic_def w_def)
  have "\<bar>nutationInObliquity T\<bar> \<le> 0.003"
    using assms by (intro nutationInObliquity_bound) (simp add: abs_le_iff)
  then have n: "\<bar>nutationInObliquity T\<bar> \<le> 3 / 1000" by simp
  have o: "\<bar>(256 / 100000) * w\<bar> \<le> 256 / 100000"
    by (rule scaled_bound) (simp_all add: cosd_bound w_def)
  show "2343 / 100 \<le> trueObliquityOfEcliptic T + 0.00256 * cosd (moonAscendingNodeLongitude_2 T)"
    "trueObliquityOfEcliptic T + 0.00256 * cosd (moonAscendingNodeLongitude_2 T) \<le> 2345 / 100"
    unfolding e using meanObliquityOfEcliptic_range [OF assms] n o by linarith+
qed


lemma deg2rad_rad2deg:
  "deg2rad (rad2deg a) = a - a * (1 - 57.29577951308232 * 0.017453292519943295)"
  by (simp add: deg2rad_def rad2deg_def algebra_simps)

lemma conversion_gap:
  "0 \<le> 1 - 57.29577951308232 * (0.017453292519943295 :: real)"
  "1 - 57.29577951308232 * (0.017453292519943295 :: real) \<le> 1 / 10000"
  by simp_all

lemma declination_range:
  assumes "46 / 10000 \<le> T" "T \<le> 47 / 10000"
  shows "3 / 10 \<le> sind (sunApparentDeclination T)"
    "1 / 2 \<le> cosd (sunApparentDeclination T)"
proof -
  define eps where
    "eps = trueObliquityOfEcliptic T + 0.00256 * cosd (moonAscendingNodeLongitude_2 T)"
  define lam where "lam = sunApparentLongitude T"
  define s where "s = sind eps * sind lam"
  define a where "a = arcsin s"
  define g :: real where "g = 1 - 57.29577951308232 * 0.017453292519943295"
  define b where "b = a * g"
  have d: "sunApparentDeclination T = rad2deg a"
    by (simp add: sunApparentDeclination_def Let_def a_def s_def eps_def lam_def)
  have e: "2343 / 100 \<le> eps" "eps \<le> 2345 / 100"
    unfolding eps_def using obliquity_range [OF assms] by simp_all
  have l: "839 / 10 \<le> lam" "lam \<le> 921 / 10"
    unfolding lam_def using sunApparentLongitude_range [OF assms] by simp_all
  have re: "408 / 1000 \<le> deg2rad eps" "deg2rad eps \<le> 41 / 100"
    using e by (simp_all add: deg2rad_def)
  have rl: "146 / 100 \<le> deg2rad lam" "deg2rad lam \<le> 161 / 100"
    using l by (simp_all add: deg2rad_def)
  have "39 / 100 \<le> (408 / 1000 :: real) - (41 / 100) ^ 3 / 6"
    by (simp add: power_divide)
  then have se: "39 / 100 \<le> sind eps" "sind eps \<le> 41 / 100"
    using sin_lower_small [OF re] unfolding sind_def by linarith+
  have "81 / 100 \<le> (146 / 100 :: real) - (161 / 100) ^ 3 / 6 + (146 / 100) ^ 5 / 120
      - (161 / 100) ^ 7 / 5040" by (simp add: power_divide)
  then have sl: "81 / 100 \<le> sind lam" "sind lam \<le> 1"
    using sin_lower [OF rl] unfolding sind_def by (linarith, simp)
  have "(39 / 100) * (81 / 100) \<le> sind eps * sind lam"
    using se(1) sl(1) by (intro mult_mono) simp_all
  then have s_lo: "31 / 100 \<le> s" by (simp add: s_def)
  have "sind eps * sind lam \<le> (41 / 100) * 1"
    using se sl by (intro mult_mono) simp_all
  then have s_hi: "s \<le> 1 / 2" by (simp add: s_def)
  have sa: "sin a = s" unfolding a_def using s_lo s_hi by (intro sin_arcsin) simp_all
  have a0: "0 \<le> a" unfolding a_def using s_lo s_hi by (intro arcsin_nonneg) simp_all
  have "arcsin s \<le> arcsin (1 / 2)" using s_lo s_hi by (intro arcsin_le_arcsin) simp_all
  also have "arcsin (1 / 2) = pi / 6"
  proof -
    have "arcsin (sin (pi / 6)) = pi / 6" using pi_ge_two by (intro arcsin_sin) simp_all
    then show ?thesis by (simp add: sin_30)
  qed
  finally have a6: "a \<le> pi / 6" by (simp add: a_def)
  have a1: "a \<le> 1" using a6 pi_less_4 by linarith
  have g: "0 \<le> g" "g \<le> 1 / 10000" unfolding g_def by (rule conversion_gap)+
  have b0: "0 \<le> b" unfolding b_def using a0 g(1) by simp
  have "a * g \<le> 1 * (1 / 10000)" using a0 a1 g by (intro mult_mono) simp_all
  then have b1: "b \<le> 1 / 10000" by (simp add: b_def)
  have r: "deg2rad (sunApparentDeclination T) = a - b"
    unfolding d b_def g_def by (rule deg2rad_rad2deg)
  have cb: "99 / 100 \<le> cos b" using b0 b1 by (intro cos_lower) simp
  have sb: "sin b \<le> 1 / 10000" using sin_x_le_x [OF b0] b1 by linarith
  have sb0: "0 \<le> sin b" using b0 b1 pi_ge_two by (intro sin_ge_zero) simp_all
  have ca: "cos a \<le> 1" by simp
  have "(31 / 100) * (99 / 100) \<le> sin a * cos b"
    unfolding sa using s_lo cb by (intro mult_mono) simp_all
  then have p1: "3069 / 10000 \<le> sin a * cos b" by simp
  have "cos a * sin b \<le> 1 * (1 / 10000)"
    using ca sb sb0 by (intro mult_mono) simp_all
  then have p2: "cos a * sin b \<le> 1 / 10000" by simp
  show "3 / 10 \<le> sind (sunApparentDeclination T)"
    unfolding sind_def r sin_diff using p1 p2 by linarith
  have "cos (pi / 3) \<le> cos (a - b)"
    using a0 a6 b0 b1 pi_ge_two
  proof (intro cos_monotone_0_pi_le)
    show "0 \<le> a - b" unfolding b_def using a0 g by (simp add: mult_left_le)
  qed simp_all
  then show "1 / 2 \<le> cosd (sunApparentDeclination T)"
    unfolding cosd_def r by (simp add: cos_60)
qed


lemma latitude_85:
  "0 < cosd 85" "cosd 85 \<le> 12 / 100" "99 / 100 \<le> sind 85"
proof -
  define x :: real where "x = 85 * 0.017453292519943295"
  have x: "14835 / 10000 \<le> x" "x \<le> 14836 / 10000" by (simp_all add: x_def)
  have x0: "0 \<le> x" using x by simp
  have p2: "(14835 / 10000)\<^sup>2 \<le> x\<^sup>2" "x\<^sup>2 \<le> (14836 / 10000)\<^sup>2"
    using x by (intro power_mono; simp)+
  have p4: "(14835 / 10000) ^ 4 \<le> x ^ 4" "x ^ 4 \<le> (14836 / 10000) ^ 4"
    using x by (intro power_mono; simp)+
  have p6: "\<bar>x\<bar> ^ 6 \<le> (14836 / 10000) ^ 6"
    using x by (intro power_mono) simp_all
  have n: "0 < 1 - (14836 / 10000 :: real)\<^sup>2 / 2 + (14835 / 10000) ^ 4 / 24 - (14836 / 10000) ^ 6 / 720"
    "1 - (14835 / 10000 :: real)\<^sup>2 / 2 + (14836 / 10000) ^ 4 / 24 + (14836 / 10000) ^ 6 / 720 \<le> 12 / 100"
    by (simp_all add: power_divide)
  have c: "0 < cos x" "cos x \<le> 12 / 100"
    using cos_taylor6 [of x] p2 p4 p6 n by linarith+
  have "0 < sin x" using x pi_ge_two by (intro sin_gt_zero) simp_all
  moreover have "(cos x)\<^sup>2 \<le> (12 / 100)\<^sup>2" using c by (intro power_mono) simp_all
  then have "(cos x)\<^sup>2 \<le> 144 / 10000" by (simp add: power_divide)
  then have "9801 / 10000 \<le> (sin x)\<^sup>2"
    using sin_cos_squared_add [of x] by linarith
  then have "(99 / 100)\<^sup>2 \<le> (sin x)\<^sup>2" by (simp add: power_divide)
  ultimately have s: "99 / 100 \<le> sin x"
    by (intro power2_le_imp_le [of "99 / 100" "sin x"]) simp_all
  show "0 < cosd 85" "cosd 85 \<le> 12 / 100" "99 / 100 \<le> sind 85"
    using c s by (simp_all add: cosd_def sind_def deg2rad_def x_def)
qed

lemma latitude_minus_85: "cosd (- 85) = cosd 85" "sind (- 85) = - sind 85"
  by (simp_all add: cosd_def sind_def deg2rad_def)

lemma horizon_sine: "\<bar>sind (- 50 / 60)\<bar> \<le> 146 / 10000"
proof -
  have "\<bar>sind (- 50 / 60)\<bar> \<le> \<bar>deg2rad (- 50 / 60)\<bar>"
    unfolding sind_def by (rule abs_sin_x_le_abs_x)
  also have "\<dots> \<le> 146 / 10000" by (simp add: deg2rad_def)
  finally show ?thesis .
qed

lemma exampleTD_bounds: "46 / 10000 \<le> exampleTD \<and> exampleTD \<le> 47 / 10000"
  by code_simp

lemma example_delta: "sunRiseSet_delta exampleDate = sunApparentDeclination exampleTD"
  by (simp add: sunRiseSet_delta_def exampleTD_def exampleDate_def Let_def)

lemma example_midnight_sun: "cosH0 85 (sunRiseSet_delta exampleDate) < - 1"
proof -
  define d where "d = sunApparentDeclination exampleTD"
  have sd: "3 / 10 \<le> sind d" and cd: "1 / 2 \<le> cosd d"
    unfolding d_def using exampleTD_bounds by (intro declination_range; simp)+
  have cd1: "cosd d \<le> 1" using cosd_bound [of d] by simp
  have "(99 / 100) * (3 / 10) \<le> sind 85 * sind d"
    using latitude_85(3) sd by (intro mult_mono) simp_all
  then have p: "297 / 1000 \<le> sind 85 * sind d" by simp
  have "cosd 85 * cosd d \<le> (12 / 100) * 1"
    using latitude_85(1,2) cd cd1 by (intro mult_mono) simp_all
  then have q: "cosd 85 * cosd d \<le> 12 / 100" by simp
  have pos: "0 < cosd 85 * cosd d" using latitude_85(1) cd by simp
  have "sind (- 50 / 60) - sind 85 * sind d < - (cosd 85 * cosd d)"
    using horizon_sine p q by linarith
  then have "(sind (- 50 / 60) - sind 85 * sind d) / (cosd 85 * cosd d) < - 1"
    using pos by (simp add: pos_divide_less_eq)
  then show ?thesis unfolding example_delta cosH0_def d_def .
qed

lemma example_polar_night: "1 < cosH0 (- 85) (sunRiseSet_delta exampleDate)"
proof -
  define d where "d = sunApparentDeclination exampleTD"
  have sd: "3 / 10 \<le> sind d" and cd: "1 / 2 \<le> cosd d"
    unfolding d_def using exampleTD_bounds by (intro declination_range; simp)+
  have cd1: "cosd d \<le> 1" using cosd_bound [of d] by simp
  have "(99 / 100) * (3 / 10) \<le> sind 85 * sind d"
    using latitude_85(3) sd by (intro mult_mono) simp_all
  then have p: "297 / 1000 \<le> sind 85 * sind d" by simp
  have "cosd 85 * cosd d \<le> (12 / 100) * 1"
    using latitude_85(1,2) cd cd1 by (intro mult_mono) simp_all
  then have q: "cosd 85 * cosd d \<le> 12 / 100" by simp
  have pos: "0 < cosd 85 * cosd d" using latitude_85(1) cd by simp
  have "cosd 85 * cosd d < sind (- 50 / 60) + sind 85 * sind d"
    using horizon_sine p q by linarith
  then have "1 < (sind (- 50 / 60) + sind 85 * sind d) / (cosd 85 * cosd d)"
    using pos by (simp add: pos_less_divide_eq)
  then show ?thesis unfolding example_delta cosH0_def d_def latitude_minus_85 by simp
qed

lemma example_equator:
  "- 1 \<le> cosH0 0 (sunRiseSet_delta exampleDate)" "cosH0 0 (sunRiseSet_delta exampleDate) \<le> 1"
proof -
  define d where "d = sunApparentDeclination exampleTD"
  have cd: "1 / 2 \<le> cosd d"
    unfolding d_def using exampleTD_bounds by (intro declination_range; simp)
  have pos: "0 < cosd d" using cd by simp
  have z: "sind 0 = 0" "cosd 0 = 1" by (simp_all add: sind_def cosd_def deg2rad_def)
  have e: "cosH0 0 (sunRiseSet_delta exampleDate) = sind (- 50 / 60) / cosd d"
    unfolding example_delta cosH0_def d_def z by simp
  have "- cosd d \<le> sind (- 50 / 60)" "sind (- 50 / 60) \<le> cosd d"
    using horizon_sine cd by linarith+
  then show "- 1 \<le> cosH0 0 (sunRiseSet_delta exampleDate)"
    "cosH0 0 (sunRiseSet_delta exampleDate) \<le> 1"
    unfolding e using pos by (simp_all add: pos_le_divide_eq pos_divide_le_eq)
qed

subsection \<open>What the solver operations return\<close>







subsection \<open>Sunrise, sunset and solar noon\<close>

lemma example_cell: "heap exampleState ! 0 = exampleDate" "length (heap exampleState) = 1"
  "\<not> returnTimeForPNMS exampleState"
  "heap (options exampleOptions exampleState) ! 0 = exampleDate"
  "length (heap (options exampleOptions exampleState)) = 1"
  "returnTimeForPNMS (options exampleOptions exampleState)"
  "tz exampleDate \<noteq> []"
  by (simp_all add: exampleState_def initial_state_def options_def exampleOptions_def
      exampleDate_def)

lemma example_utc_cell: "heap exampleUtcState ! 0 = exampleUtcDate"
  "length (heap exampleUtcState) = 1" "\<not> returnTimeForPNMS exampleUtcState"
  "heap (options exampleOptions exampleUtcState) ! 0 = exampleUtcDate"
  "length (heap (options exampleOptions exampleUtcState)) = 1"
  "returnTimeForPNMS (options exampleOptions exampleUtcState)"
  "tz exampleUtcDate = []"
  "sunRiseSet_delta exampleUtcDate = sunRiseSet_delta exampleDate"
  by (simp_all add: exampleUtcState_def initial_state_def options_def exampleOptions_def
      exampleUtcDate_def exampleDate_def sunRiseSet_delta_def)

text \<open>
  \<open>sunRiseSet\<close> computes the declination \<open>sunRiseSet_delta\<close> of the date and from it the
  argument \<open>cosH0\<close> of the arc cosine. For a date that carries a zone name, and for any date
  while \<open>returnTimeForPNMS\<close> is not set, \<open>sunrise\<close> and \<open>sunset\<close> return the classification:
  with the argument below -1 the midnight sun \<open>'MS'\<close>, with the argument above 1 the polar
  night \<open>'PN'\<close>, and with \<open>returnTimeForPNMS\<close> set the moment created from the text marked
  \<open>**\<close> or \<open>--\<close>, moved to the zone and the day of the date, at 6 or 18 hours, an hour later
  under daylight saving time.
\<close>

lemma polar_classification:
  assumes "p < length (heap s)" "tz (heap s ! p) \<noteq> [] \<or> \<not> returnTimeForPNMS s"
  shows
  "(cosH0 phi (sunRiseSet_delta (heap s ! p)) < - 1 \<and> \<not> returnTimeForPNMS s \<longrightarrow>
      fst (sunrise db s p phi L) = Inr (Str ''MS'') \<and>
      fst (sunset db s p phi L) = Inr (Str ''MS'')) \<and>
   (cosH0 phi (sunRiseSet_delta (heap s ! p)) > 1 \<and> \<not> returnTimeForPNMS s \<longrightarrow>
      fst (sunrise db s p phi L) = Inr (Str ''PN'') \<and>
      fst (sunset db s p phi L) = Inr (Str ''PN'')) \<and>
   (cosH0 phi (sunRiseSet_delta (heap s ! p)) < - 1 \<and> returnTimeForPNMS s \<longrightarrow>
      fst (sunrise db s p phi L) = Inr (Ref (Suc (length (heap s)))) \<and>
      heap (snd (sunrise db s p phi L)) ! Suc (length (heap s)) =
        zoned db (set_second 0) (zoned db (set_minute 0)
          (zoned db (set_hour (if isDST (heap s ! p) then 6 + 1 else 6))
            (zoned db (set_date (date (heap s ! p))) (zoned db (set_month (month (heap s ! p)))
              (zoned db (set_year (year (heap s ! p)))
                (setZone db (tz (heap s ! p)) (placeholder ''**2000-01-01 12:00:00''))))))) \<and>
      fst (sunset db s p phi L) = Inr (Ref (Suc (length (heap s)))) \<and>
      heap (snd (sunset db s p phi L)) ! Suc (length (heap s)) =
        zoned db (set_second 0) (zoned db (set_minute 0)
          (zoned db (set_hour (if isDST (heap s ! p) then 18 + 1 else 18))
            (zoned db (set_date (date (heap s ! p))) (zoned db (set_month (month (heap s ! p)))
              (zoned db (set_year (year (heap s ! p)))
                (setZone db (tz (heap s ! p)) (placeholder ''**2000-01-01 12:00:00'')))))))) \<and>
   (cosH0 phi (sunRiseSet_delta (heap s ! p)) > 1 \<and> returnTimeForPNMS s \<longrightarrow>
      fst (sunrise db s p phi L) = Inr (Ref (Suc (length (heap s)))) \<and>
      heap (snd (sunrise db s p phi L)) ! Suc (length (heap s)) =
        zoned db (set_second 0) (zoned db (set_minute 0)
          (zoned db (set_hour (if isDST (heap s ! p) then 6 + 1 else 6))
            (zoned db (set_date (date (heap s ! p))) (zoned db (set_month (month (heap s ! p)))
              (zoned db (set_year (year (heap s ! p)))
                (setZone db (tz (heap s ! p)) (placeholder ''--2000-01-01 12:00:00''))))))) \<and>
      fst (sunset db s p phi L) = Inr (Ref (Suc (length (heap s)))) \<and>
      heap (snd (sunset db s p phi L)) ! Suc (length (heap s)) =
        zoned db (set_second 0) (zoned db (set_minute 0)
          (zoned db (set_hour (if isDST (heap s ! p) then 18 + 1 else 18))
            (zoned db (set_date (date (heap s ! p))) (zoned db (set_month (month (heap s ! p)))
              (zoned db (set_year (year (heap s ! p)))
                (setZone db (tz (heap s ! p)) (placeholder ''--2000-01-01 12:00:00'')))))))) \<and>
   (\<exists>v. fst (sunrise db s p phi L) = Inr v) \<and> (\<exists>v. fst (sunset db s p phi L) = Inr v)"
proof -
  note r = riseSet_api [where flag = "''RISE''" and h = 6 and db = db and s = s and p = p
      and phi = phi and L = L, folded sunrise_def]
  note t = riseSet_api [where flag = "''SET''" and h = 18 and db = db and s = s and p = p
      and phi = phi and L = L, folded sunset_def]
  have e: "\<exists>v. fst (sunrise db s p phi L) = Inr v" "\<exists>v. fst (sunset db s p phi L) = Inr v"
    using r(7) t(7) assms by blast+
  have z: "tz (heap s ! p) \<noteq> []" if "returnTimeForPNMS s" using assms(2) that by simp
  show ?thesis
    by (intro conjI impI; (elim conjE)?)
      (use r(1-4) t(1-4) e assms(1) z in \<open>simp_all\<close>)
qed

text \<open>
  C5 says that in both cases \<open>sunrise\<close> and \<open>sunset\<close> return the classification or the
  configured moment, and that no error escapes. The description of \<open>sunrise\<close> allows a date
  in UTC and promises a moment or a string. For the example date as \<open>moment.utc\<close> makes it,
  at latitude 85, \<open>sunrise\<close> and \<open>sunset\<close> return \<open>'MS'\<close>, and at latitude -85 \<open>'PN'\<close>; once
  \<open>options\<close> has set \<open>returnTimeForPNMS\<close>, the same calls end with the TypeError that
  \<open>returnPNMS\<close> raises inside the handler of \<open>sunrise\<close> and \<open>sunset\<close>.
\<close>

theorem polar_placeholder_TypeError:
  "fst (sunrise exampleZones exampleUtcState 0 85 0) = Inr (Str ''MS'') \<and>
   fst (sunset exampleZones exampleUtcState 0 (- 85) 0) = Inr (Str ''PN'') \<and>
   fst (sunrise exampleZones (options exampleOptions exampleUtcState) 0 85 0) = Inl TypeError \<and>
   fst (sunset exampleZones (options exampleOptions exampleUtcState) 0 85 0) = Inl TypeError \<and>
   fst (sunrise exampleZones (options exampleOptions exampleUtcState) 0 (- 85) 0)
     = Inl TypeError \<and>
   fst (sunset exampleZones (options exampleOptions exampleUtcState) 0 (- 85) 0)
     = Inl TypeError"
proof -
  note r = riseSet_api [where flag = "''RISE''" and h = 6 and db = exampleZones
      and p = 0 and L = 0, folded sunrise_def]
  note t = riseSet_api [where flag = "''SET''" and h = 18 and db = exampleZones
      and p = 0 and L = 0, folded sunset_def]
  have ms: "cosH0 85 (sunRiseSet_delta exampleUtcDate) < - 1"
    and pn: "1 < cosH0 (- 85) (sunRiseSet_delta exampleUtcDate)"
    using example_midnight_sun example_polar_night by (simp_all add: example_utc_cell)
  show ?thesis
    using r(1) [where s = exampleUtcState and phi = 85]
      t(2) [where s = exampleUtcState and phi = "- 85"]
      r(8) [where s = "options exampleOptions exampleUtcState" and phi = 85]
      t(8) [where s = "options exampleOptions exampleUtcState" and phi = 85]
      r(8) [where s = "options exampleOptions exampleUtcState" and phi = "- 85"]
      t(8) [where s = "options exampleOptions exampleUtcState" and phi = "- 85"]
      ms pn
    by (simp add: example_utc_cell)
qed

text \<open>
  C7, as the specification states it, says that an unrecognized flag of a sun event and an
  unrecognized kind of moon phase are signalled as errors at once, and that no computed
  result is returned for them. \<open>truePhase\<close> has no branch for a phase other than 0, 1, 2
  and 3: for phase 4 it returns the mean phase of \<open>k + 1\<close> with the corrections that are
  common to all phases, a number.
\<close>

theorem unrecognized_phase_counterexample:
  "truePhase 0 4 = meanPhase (kToT 1) 1 + commonCorrections (planetaryArguments (kToT 1) 1)"
  by (simp add: truePhase_def Let_def)

text \<open>
  C7, amended: for a flag that is neither \<open>'RISE'\<close> nor \<open>'SET'\<close>, \<open>sunRiseSet\<close> returns
  \<open>false\<close> when the argument of the arc cosine lies between -1 and 1, after it has created
  the moment of the date, and the check of the polar day comes first: with the argument
  below -1 and \<open>returnTimeForPNMS\<close> not set it throws \<open>'MS'\<close>. For a phase that is none of 0,
  1, 2 and 3, \<open>truePhase\<close> signals nothing and returns the mean phase with the common
  corrections.
\<close>

theorem unrecognized_kind:
  "(flag \<noteq> ''RISE'' \<and> flag \<noteq> ''SET'' \<and>
      - 1 \<le> cosH0 phi (sunRiseSet_delta (heap s ! p)) \<and>
      cosH0 phi (sunRiseSet_delta (heap s ! p)) \<le> 1 \<longrightarrow>
        fst (sunRiseSet db s p phi L flag) = Inr JSFalse \<and>
        heap (snd (sunRiseSet db s p phi L flag)) =
          heap s @ [utc (year (heap s ! p)) (month (heap s ! p)) (date (heap s ! p)) 0 0 0 []]) \<and>
   (flag \<noteq> ''RISE'' \<and> flag \<noteq> ''SET'' \<and> \<not> returnTimeForPNMS s \<and>
      cosH0 phi (sunRiseSet_delta (heap s ! p)) < - 1 \<longrightarrow>
        fst (sunRiseSet db s p phi L flag) = Inl (Str ''MS'')) \<and>
   (phase \<noteq> 0 \<and> phase \<noteq> 1 \<and> phase \<noteq> 2 \<and> phase \<noteq> 3 \<longrightarrow>
      truePhase k phase =
        meanPhase (kToT (k + phase / 4)) (k + phase / 4) +
        commonCorrections (planetaryArguments (kToT (k + phase / 4)) (k + phase / 4)))"
proof -
  note o = sunRiseSet_outcome [where s = s and p = p and phi = phi and db = db and L = L
      and flag = flag]
  have "truePhase k phase =
        meanPhase (kToT (k + phase / 4)) (k + phase / 4) +
        commonCorrections (planetaryArguments (kToT (k + phase / 4)) (k + phase / 4))"
    if "phase \<noteq> 0" "phase \<noteq> 1" "phase \<noteq> 2" "phase \<noteq> 3"
    using that by (simp add: truePhase_def Let_def)
  then show ?thesis using o(1) o(5) by auto
qed

theorem unrecognized_kind_witness:
  "fst (sunRiseSet exampleZones exampleState 0 0 0 ''NOON'') = Inr JSFalse \<and>
   heap (snd (sunRiseSet exampleZones exampleState 0 0 0 ''NOON'')) =
     [exampleDate, utc 2000 5 21 0 0 0 []] \<and>
   fst (sunRiseSet exampleZones exampleState 0 85 0 ''NOON'') = Inl (Str ''MS'') \<and>
   truePhase 0 5 =
     meanPhase (kToT (5 / 4)) (5 / 4) + commonCorrections (planetaryArguments (kToT (5 / 4)) (5 / 4))"
  using unrecognized_kind [where s = exampleState and p = 0 and phi = 0 and flag = "''NOON''"
      and db = exampleZones and L = 0 and phase = 5 and k = 0]
    unrecognized_kind [where s = exampleState and p = 0 and phi = 85 and flag = "''NOON''"
      and db = exampleZones and L = 0 and phase = 5 and k = 0]
    example_midnight_sun example_equator
  by (simp add: example_cell exampleState_def initial_state_def exampleDate_def)






end
